theory Spec2Isabelle
  imports Complex_Main
begin

section \<open>Python values, strings and errors\<close>

text \<open>
  The client of \<^verbatim>\<open>api/smartthings.py\<close> stores what it reads from decoded JSON documents,
  so the cached fields hold arbitrary JSON values. \<open>JNull\<close> is Python's \<^verbatim>\<open>None\<close>; an
  object is kept as an association list read with \<open>map_of\<close> (a dict has one value per
  key). Numbers are exact rationals: the code never computes with a number it reads,
  it only tests truthiness and attribute presence, where int and float agree.

  Strings are \<open>string\<close>. A character stands for the Unicode code point of its code, so
  the model covers the text of code points 0 to 255 (Latin-1); \<^verbatim>\<open>str.isdigit\<close> and
  \<^verbatim>\<open>int\<close> below are Python's on such text. \<^verbatim>\<open>str.upper\<close> is modelled on the ASCII
  letters and leaves every other character alone: above 127 Python's result is never an
  ASCII letter of "DTV" or "DIGITALTV", the only strings the code compares an
  upper-cased string with, so the comparisons come out the same.
\<close>

datatype json =
    JNull
  | JBool bool
  | JNum rat
  | JStr string
  | JArr "json list"
  | JObj "(string \<times> json) list"

datatype error =
    AsyncTimeoutError
  | ClientConnectionError
  | ClientResponseError
  | AttributeError
  | TypeError
  | ValueError
  | KeyError
  | OverflowError
  | InvalidSmartThingsSoundMode
  | InvalidSmartThingsPictureMode

text \<open>Truthiness, as \<^verbatim>\<open>if x:\<close> and \<^verbatim>\<open>not x\<close> test it.\<close>

fun truthy :: "json \<Rightarrow> bool" where
  "truthy JNull = False"
| "truthy (JBool b) = b"
| "truthy (JNum r) = (r \<noteq> 0)"
| "truthy (JStr s) = (s \<noteq> [])"
| "truthy (JArr xs) = (xs \<noteq> [])"
| "truthy (JObj kvs) = (kvs \<noteq> [])"

definition is_ascii_digit :: "char \<Rightarrow> bool" where
  "is_ascii_digit c = (48 \<le> (of_char c :: nat) \<and> (of_char c :: nat) \<le> 57)"

text \<open>
  \<^verbatim>\<open>str.isdigit()\<close>: non-empty and every character a digit. Below 256 the digits are
  the ten ASCII digits and the superscripts two, three and one (codes 178, 179, 185),
  which \<^verbatim>\<open>int\<close> does not accept.
\<close>

definition is_digit_char :: "char \<Rightarrow> bool" where
  "is_digit_char c =
     (is_ascii_digit c \<or> (of_char c :: nat) = 178 \<or> (of_char c :: nat) = 179
      \<or> (of_char c :: nat) = 185)"

definition isdigit :: "string \<Rightarrow> bool" where
  "isdigit s = (s \<noteq> [] \<and> list_all is_digit_char s)"

text \<open>A non-empty string of ASCII digits, and the decimal value of such a string.\<close>

definition ascii_digits :: "string \<Rightarrow> bool" where
  "ascii_digits s = (s \<noteq> [] \<and> list_all is_ascii_digit s)"

definition int_of_digits :: "string \<Rightarrow> int" where
  "int_of_digits s = foldl (\<lambda>acc c. 10 * acc + (int (of_char c) - 48)) 0 s"

text \<open>
  \<^verbatim>\<open>str.upper()\<close>: a lower-case letter (codes 97 to 122) becomes the character 32
  below it, that is, loses bit 5; every other character stays.
\<close>

definition upper_char :: "char \<Rightarrow> char" where
  "upper_char c =
     (if 97 \<le> (of_char c :: nat) \<and> (of_char c :: nat) \<le> 122
      then (case c of Char b0 b1 b2 b3 b4 b5 b6 b7 \<Rightarrow> Char b0 b1 b2 b3 b4 False b6 b7)
      else c)"

definition upper :: "string \<Rightarrow> string" where
  "upper s = map upper_char s"

text \<open>
  \<^verbatim>\<open>int(x)\<close>. A number is truncated towards zero. A string is stripped of surrounding
  whitespace (codes 9 to 13, 32, 133 and 160) and read as an optionally signed decimal
  whose ASCII digits may be grouped by single underscores; more digits than
  \<^verbatim>\<open>sys.int_info.default_max_str_digits\<close> are refused. Both failures are a ValueError;
  anything but a number or a string is a TypeError.
\<close>

definition max_str_digits :: nat where "max_str_digits = 4300"

definition is_space :: "char \<Rightarrow> bool" where
  "is_space c = ((9 \<le> (of_char c :: nat) \<and> (of_char c :: nat) \<le> 13)
                 \<or> (of_char c :: nat) = 32 \<or> (of_char c :: nat) = 133
                 \<or> (of_char c :: nat) = 160)"

definition strip :: "string \<Rightarrow> string" where
  "strip s = rev (dropWhile is_space (rev (dropWhile is_space s)))"

fun valid_digits :: "string \<Rightarrow> bool" where
  "valid_digits [] = False"
| "valid_digits [c] = is_ascii_digit c"
| "valid_digits (c # d # r) =
     (is_ascii_digit c \<and> (if d = CHR ''_'' then valid_digits r else valid_digits (d # r)))"

definition int_of_string :: "string \<Rightarrow> error + int" where
  "int_of_string s =
     (let t = strip s;
          neg = (t \<noteq> [] \<and> hd t = CHR ''-'');
          u = (if t \<noteq> [] \<and> (hd t = CHR ''-'' \<or> hd t = CHR ''+'') then tl t else t);
          ds = filter (\<lambda>c. c \<noteq> CHR ''_'') u
      in if valid_digits u \<and> length ds \<le> max_str_digits
         then Inr ((if neg then - 1 else 1) * int_of_digits ds)
         else Inl ValueError)"

fun py_int :: "json \<Rightarrow> error + int" where
  "py_int (JNum r) = Inr (if 0 \<le> r then \<lfloor>r\<rfloor> else \<lceil>r\<rceil>)"
| "py_int (JBool b) = Inr (if b then 1 else 0)"
| "py_int (JStr s) = int_of_string s"
| "py_int _ = Inl TypeError"

text \<open>
  \<^verbatim>\<open>a / b\<close> on two ints, for a non-zero divisor: the quotient as a float, or
  OverflowError when it is too large for one, that is, when it rounds to a magnitude of
  2 to the 1024 or more. A quotient in range is kept exact here, not rounded.
\<close>

definition float_overflow :: "rat \<Rightarrow> bool" where
  "float_overflow q = (2 ^ 1024 - 2 ^ 970 \<le> \<bar>q\<bar>)"

definition true_div :: "int \<Rightarrow> int \<Rightarrow> error + rat" where
  "true_div a b =
     (if float_overflow (of_int a / of_int b) then Inl OverflowError
      else Inr (of_int a / of_int b))"

text \<open>
  \<^verbatim>\<open>d.get(key, default)\<close>. Only a dict has \<^verbatim>\<open>get\<close>: on None, a number, a string or a
  list the attribute lookup raises AttributeError.
\<close>

fun dict_get :: "json \<Rightarrow> string \<Rightarrow> json \<Rightarrow> error + json" where
  "dict_get (JObj kvs) k dflt = Inr (case map_of kvs k of Some v \<Rightarrow> v | None \<Rightarrow> dflt)"
| "dict_get _ k dflt = Inl AttributeError"

text \<open>\<^verbatim>\<open>d[key]\<close> with a string key: KeyError on a dict without it, TypeError elsewhere.\<close>

fun subscript :: "json \<Rightarrow> string \<Rightarrow> error + json" where
  "subscript (JObj kvs) k = (case map_of kvs k of Some v \<Rightarrow> Inr v | None \<Rightarrow> Inl KeyError)"
| "subscript _ k = Inl TypeError"

text \<open>
  What a \<^verbatim>\<open>for\<close> loop iterates over: the items of a list, the keys of a dict, the
  characters of a string; None, numbers and booleans are not iterable.
\<close>

fun py_iter :: "json \<Rightarrow> error + json list" where
  "py_iter (JArr xs) = Inr xs"
| "py_iter (JObj kvs) = Inr (map (\<lambda>kv. JStr (fst kv)) kvs)"
| "py_iter (JStr s) = Inr (map (\<lambda>c. JStr [c]) s)"
| "py_iter _ = Inl TypeError"

text \<open>\<^verbatim>\<open>dev_data.get(name, {}).get("value", default)\<close>, the access path of every field.\<close>

definition get_value :: "json \<Rightarrow> string \<Rightarrow> json \<Rightarrow> error + json" where
  "get_value dev_data name dflt =
     (case dict_get dev_data name (JObj []) of
        Inl e \<Rightarrow> Inl e
      | Inr field \<Rightarrow> dict_get field ''value'' dflt)"

section \<open>Constants and command payloads\<close>

type_synonym command_spec = "string \<times> string"

definition COMMAND_POWER_OFF :: command_spec where "COMMAND_POWER_OFF = (''switch'', ''off'')"
definition COMMAND_POWER_ON :: command_spec where "COMMAND_POWER_ON = (''switch'', ''on'')"
definition COMMAND_REFRESH :: command_spec where "COMMAND_REFRESH = (''refresh'', ''refresh'')"
definition COMMAND_SET_SOURCE :: command_spec where
  "COMMAND_SET_SOURCE = (''mediaInputSource'', ''setInputSource'')"
definition COMMAND_SET_VD_SOURCE :: command_spec where
  "COMMAND_SET_VD_SOURCE = (''samsungvd.mediaInputSource'', ''setInputSource'')"
definition COMMAND_MUTE :: command_spec where "COMMAND_MUTE = (''audioMute'', ''mute'')"
definition COMMAND_UNMUTE :: command_spec where "COMMAND_UNMUTE = (''audioMute'', ''unmute'')"
definition COMMAND_VOLUME_UP :: command_spec where
  "COMMAND_VOLUME_UP = (''audioVolume'', ''volumeUp'')"
definition COMMAND_VOLUME_DOWN :: command_spec where
  "COMMAND_VOLUME_DOWN = (''audioVolume'', ''volumeDown'')"
definition COMMAND_SET_VOLUME :: command_spec where
  "COMMAND_SET_VOLUME = (''audioVolume'', ''setVolume'')"
definition COMMAND_CHANNEL_UP :: command_spec where
  "COMMAND_CHANNEL_UP = (''tvChannel'', ''channelUp'')"
definition COMMAND_CHANNEL_DOWN :: command_spec where
  "COMMAND_CHANNEL_DOWN = (''tvChannel'', ''channelDown'')"
definition COMMAND_SET_CHANNEL :: command_spec where
  "COMMAND_SET_CHANNEL = (''tvChannel'', ''setTvChannel'')"
definition COMMAND_SOUND_MODE :: command_spec where
  "COMMAND_SOUND_MODE = (''samsungvd.soundMode'', ''setSoundMode'')"
definition COMMAND_PICTURE_MODE :: command_spec where
  "COMMAND_PICTURE_MODE = (''samsungvd.pictureMode'', ''setPictureMode'')"

definition DIGITAL_TV :: string where "DIGITAL_TV = ''digitalTv''"

text \<open>\<^verbatim>\<open>timedelta(seconds=10)\<close>; times are rational seconds.\<close>

definition MIN_TIME_BETWEEN_UPDATES :: rat where "MIN_TIME_BETWEEN_UPDATES = 10"

text \<open>
  \<^verbatim>\<open>_command\<close> builds \<^verbatim>\<open>{"commands": [{"component": "main", **command, "arguments": ...}]}\<close>
  and returns its \<^verbatim>\<open>str\<close>. The payload is kept structured; the \<^verbatim>\<open>arguments\<close> key is
  present exactly when the argument list is non-empty (\<^verbatim>\<open>if arguments:\<close>), so an empty
  list here stands for no key.
\<close>

datatype payload = Payload (component: string) (capability: string) (command_name: string)
  (arguments: "json list")

definition command :: "command_spec \<Rightarrow> json list \<Rightarrow> payload" where
  "command cmd args = Payload ''main'' (fst cmd) (snd cmd) args"

datatype request = GetHealth | GetStates | PostCommand payload

datatype STStatus = STATE_OFF | STATE_ON | STATE_UNKNOWN

section \<open>The server as the client sees it\<close>

text \<open>
  A response is either a transport failure (the awaited request raises) or an HTTP
  status with the outcome of \<^verbatim>\<open>await resp.json()\<close>. One \<open>server\<close> value answers the
  requests of one operation: the health GET, the refresh-trigger POST, the states GET
  and the command POST.
\<close>

record response =
  status :: nat
  body :: "error + json"

record server =
  health_response :: "error + response"
  refresh_response :: "error + response"
  states_response :: "error + response"
  command_response :: "error + response"

text \<open>A request made with \<^verbatim>\<open>raise_for_status=True\<close>, followed by \<^verbatim>\<open>await resp.json()\<close>.\<close>

definition checked_json :: "error + response \<Rightarrow> error + json" where
  "checked_json r =
     (case r of
        Inl e \<Rightarrow> Inl e
      | Inr resp \<Rightarrow> if 400 \<le> status resp then Inl ClientResponseError else body resp)"

section \<open>The client\<close>

text \<open>
  The fields of \<^verbatim>\<open>SmartThingsTV\<close> set by \<^verbatim>\<open>__init__\<close>. \<open>throttle_last\<close> is the timestamp
  the \<^verbatim>\<open>Throttle\<close> decorator keeps on the instance for \<^verbatim>\<open>_device_refresh\<close>; \<open>sent\<close> is
  the trace of requests issued on the session, oldest first.
\<close>

record client =
  api_key :: string
  device_id :: string
  use_channel_info :: bool
  managed_session :: bool
  device_name :: json
  state :: STStatus
  prev_state :: STStatus
  muted :: bool
  volume :: rat
  source_list :: json
  source_list_map :: json
  source :: json
  channel :: json
  channel_name :: json
  sound_mode :: json
  sound_mode_list :: json
  sound_mode_list_map :: json
  picture_mode :: json
  picture_mode_list :: json
  picture_mode_list_map :: json
  is_forced_val :: bool
  forced_count :: int
  throttle_last :: "rat option"
  sent :: "request list"

definition init :: "string \<Rightarrow> string \<Rightarrow> bool \<Rightarrow> bool \<Rightarrow> client" where
  "init key dev use_chan have_session =
     \<lparr> api_key = key, device_id = dev, use_channel_info = use_chan,
       managed_session = (\<not> have_session),
       device_name = JNull,
       state = STATE_UNKNOWN, prev_state = STATE_UNKNOWN,
       muted = False, volume = 10,
       source_list = JNull, source_list_map = JNull,
       source = JStr '''', channel = JStr '''', channel_name = JStr '''',
       sound_mode = JNull, sound_mode_list = JNull, sound_mode_list_map = JNull,
       picture_mode = JNull, picture_mode_list = JNull, picture_mode_list_map = JNull,
       is_forced_val = False, forced_count = 0,
       throttle_last = None, sent = [] \<rparr>"

text \<open>
  Sequencing with exceptions: a raised error ends the method with the client as it is
  at that point (assignments already made stay made).
\<close>

definition on_ok ::
  "error + 'a \<Rightarrow> client \<Rightarrow> ('a \<Rightarrow> (error + unit) \<times> client) \<Rightarrow> (error + unit) \<times> client" where
  "on_ok r c k = (case r of Inl e \<Rightarrow> (Inl e, c) | Inr v \<Rightarrow> k v)"

section \<open>Source names and the derived source list\<close>

fun get_source_name_loop :: "json list \<Rightarrow> string \<Rightarrow> error + json" where
  "get_source_name_loop [] source_id = Inr (JStr '''')"
| "get_source_name_loop (map_value # rest) source_id =
     (case dict_get map_value ''id'' JNull of
        Inl e \<Rightarrow> Inl e
      | Inr map_id \<Rightarrow>
          if truthy map_id \<and> map_id = JStr source_id
          then dict_get map_value ''name'' (JStr '''')
          else get_source_name_loop rest source_id)"

definition get_source_name :: "client \<Rightarrow> string \<Rightarrow> error + json" where
  "get_source_name c source_id =
     (if \<not> truthy (source_list_map c) then Inr (JStr '''')
      else
        let source_id' = (if upper source_id = upper DIGITAL_TV then ''dtv'' else source_id)
        in case py_iter (source_list_map c) of
             Inl e \<Rightarrow> Inl e
           | Inr entries \<Rightarrow> get_source_name_loop entries source_id')"

fun source_list_loop :: "json list \<Rightarrow> string list \<Rightarrow> error + string list" where
  "source_list_loop [] acc = Inr acc"
| "source_list_loop (map_value # rest) acc =
     (case dict_get map_value ''id'' JNull of
        Inl e \<Rightarrow> Inl e
      | Inr source_id \<Rightarrow>
          if truthy source_id then
            (case source_id of
               JStr s \<Rightarrow>
                 if upper s = ''DTV''
                 then source_list_loop rest (acc @ [DIGITAL_TV])
                 else source_list_loop rest (acc @ [s])
             | _ \<Rightarrow> Inl AttributeError)
          else source_list_loop rest acc)"

definition get_source_list_from_map :: "client \<Rightarrow> error + string list" where
  "get_source_list_from_map c =
     (if \<not> truthy (source_list_map c) then Inr []
      else case py_iter (source_list_map c) of
             Inl e \<Rightarrow> Inl e
           | Inr entries \<Rightarrow> source_list_loop entries [])"

section \<open>Local optimistic updates\<close>

definition set_application :: "string \<Rightarrow> client \<Rightarrow> client" where
  "set_application app_id c =
     (if use_channel_info c
      then c\<lparr>channel := JStr '''', channel_name := JStr app_id,
             is_forced_val := True, forced_count := 0\<rparr>
      else c)"

definition set_source :: "string \<Rightarrow> client \<Rightarrow> client" where
  "set_source src c =
     (if JStr src \<noteq> source c
      then c\<lparr>source := JStr src, channel := JStr '''', channel_name := JStr '''',
             is_forced_val := True, forced_count := 0\<rparr>
      else c)"

section \<open>Decoding embedded JSON\<close>

text \<open>
  \<^verbatim>\<open>json.loads\<close> is a parameter \<open>loads\<close>: \<open>None\<close> is a decode failure (ValueError).
  Given anything but a string it raises TypeError; both are caught and leave the
  empty list.
\<close>

definition load_json_list :: "(string \<Rightarrow> json option) \<Rightarrow> json \<Rightarrow> string \<Rightarrow> error + json" where
  "load_json_list loads dev_data list_name =
     (case get_value dev_data list_name JNull of
        Inl e \<Rightarrow> Inl e
      | Inr json_list \<Rightarrow>
          Inr (if truthy json_list then
                 (case json_list of
                    JStr s \<Rightarrow> (case loads s of Some v \<Rightarrow> v | None \<Rightarrow> JArr [])
                  | _ \<Rightarrow> JArr [])
               else JArr []))"

section \<open>The rate-limited refresh trigger\<close>

text \<open>The body of \<^verbatim>\<open>_device_refresh\<close>, under its decorator.\<close>

definition device_refresh_body :: "server \<Rightarrow> client \<Rightarrow> (error + unit) \<times> client" where
  "device_refresh_body srv c =
     (if device_id c = [] then (Inr (), c)
      else if use_channel_info c then
        (let c1 = c\<lparr>sent := sent c @ [PostCommand (command COMMAND_REFRESH [])]\<rparr>
         in case refresh_response srv of
              Inl e \<Rightarrow> (Inl e, c1)
            | Inr resp \<Rightarrow>
                if status resp = 409 then (Inr (), c1\<lparr>state := STATE_OFF\<rparr>)
                else if 400 \<le> status resp then (Inl ClientResponseError, c1)
                else (case body resp of Inl e \<Rightarrow> (Inl e, c1) | Inr _ \<Rightarrow> (Inr (), c1)))
      else (Inr (), c))"

text \<open>
  Modelled from the spec: the \<^verbatim>\<open>Throttle\<close> decorator of \<^verbatim>\<open>homeassistant.util\<close> is imported,
  not part of the source. The spec has the refresh trigger run at most once per
  interval of \<open>MIN_TIME_BETWEEN_UPDATES\<close>, a call inside the window being suppressed
  entirely, and asks for a timestamp-guarded gate owned by the client instance. The gate
  is open when the method never ran or more than the interval has passed since it last
  ran; passing the gate records the time of the call.
\<close>

definition throttle_open :: "rat \<Rightarrow> rat option \<Rightarrow> bool" where
  "throttle_open now prev =
     (case prev of None \<Rightarrow> True | Some t \<Rightarrow> now - t > MIN_TIME_BETWEEN_UPDATES)"

definition device_refresh :: "server \<Rightarrow> rat \<Rightarrow> client \<Rightarrow> (error + unit) \<times> client" where
  "device_refresh srv now c =
     (if throttle_open now (throttle_last c)
      then device_refresh_body srv (c\<lparr>throttle_last := Some now\<rparr>)
      else (Inr (), c))"

section \<open>Sending a command\<close>

text \<open>
  \<^verbatim>\<open>_async_send_command\<close> (named \<open>p_async_send_command\<close>: the public
  \<^verbatim>\<open>async_send_command\<close> is a different method). \<open>None\<close> is the \<^verbatim>\<open>data_cmd = None\<close> of
  an unrecognised step or mute argument; a built payload is never empty.
\<close>

definition p_async_send_command ::
  "server \<Rightarrow> rat \<Rightarrow> payload option \<Rightarrow> client \<Rightarrow> (error + unit) \<times> client" where
  "p_async_send_command srv now data_cmd c =
     (if device_id c = [] then (Inr (), c)
      else case data_cmd of
             None \<Rightarrow> (Inr (), c)
           | Some p \<Rightarrow>
               (let c1 = c\<lparr>sent := sent c @ [PostCommand p]\<rparr>
                in case checked_json (command_response srv) of
                     Inl e \<Rightarrow> (Inl e, c1)
                   | Inr _ \<Rightarrow> device_refresh srv now c1))"

section \<open>Health check and status update\<close>

definition health_result :: "server \<Rightarrow> error + bool" where
  "health_result srv =
     (case checked_json (health_response srv) of
        Inl e \<Rightarrow> Inl e
      | Inr health \<Rightarrow>
          (case subscript health ''state'' of
             Inl e \<Rightarrow> Inl e
           | Inr st \<Rightarrow> Inr (st = JStr ''ONLINE'')))"

definition async_device_health :: "server \<Rightarrow> client \<Rightarrow> (error + bool) \<times> client" where
  "async_device_health srv c =
     (if device_id c = [] then (Inr False, c)
      else (health_result srv, c\<lparr>sent := sent c @ [GetHealth]\<rparr>))"

text \<open>
  \<^verbatim>\<open>if device_volume and device_volume.isdigit(): int(device_volume) / 100 else 0\<close>.
  A truthy value that is not a string has no \<^verbatim>\<open>isdigit\<close>; \<^verbatim>\<open>int\<close> raises on a string
  of digits it does not accept or that is too long, and the division on a quotient too
  large for a float.
\<close>

definition parse_volume :: "json \<Rightarrow> error + rat" where
  "parse_volume device_volume =
     (if truthy device_volume then
        (case device_volume of
           JStr s \<Rightarrow>
             if isdigit s then
               (case int_of_string s of
                  Inl e \<Rightarrow> Inl e
                | Inr n \<Rightarrow> true_div n 100)
             else Inr 0
         | _ \<Rightarrow> Inl AttributeError)
      else Inr 0)"

text \<open>Lines 509 to 516: the reported source with the digitalTv spelling made canonical.\<close>

definition canonical_source :: "json \<Rightarrow> error + json" where
  "canonical_source device_source =
     (if truthy device_source then
        (case device_source of
           JStr s \<Rightarrow> Inr (if upper s = upper DIGITAL_TV then JStr DIGITAL_TV else device_source)
         | _ \<Rightarrow> Inl AttributeError)
      else Inr device_source)"

text \<open>
  The end of \<^verbatim>\<open>async_device_update\<close>, from the override hold (line 503) on: a forced
  value whose hold counter is still zero is kept for this poll; otherwise the reported
  source and channel are taken.
\<close>

definition update_source_channel :: "json \<Rightarrow> client \<Rightarrow> (error + unit) \<times> client" where
  "update_source_channel dev_data c =
     (if is_forced_val c \<and> forced_count c \<le> 0
      then (Inr (), c\<lparr>forced_count := forced_count c + 1\<rparr>)
      else
        (let c = c\<lparr>is_forced_val := False, forced_count := 0\<rparr> in
         on_ok (get_value dev_data ''inputSource'' (JStr '''')) c (\<lambda>device_source.
         on_ok (get_value dev_data ''tvChannel'' (JStr '''')) c (\<lambda>device_tv_chan.
         on_ok (get_value dev_data ''tvChannelName'' (JStr '''')) c (\<lambda>device_tv_chan_name.
         on_ok (canonical_source device_source) c (\<lambda>device_source.
         (let c = c\<lparr>source := device_source\<rparr> in
          if use_channel_info c
          then (Inr (), c\<lparr>channel := device_tv_chan, channel_name := device_tv_chan_name\<rparr>)
          else (Inr (), c\<lparr>channel := JStr '''', channel_name := JStr ''''\<rparr>))))))))"

text \<open>Lines 472 to 501: volume, mute, the modes and the lists, in the source's order.\<close>

definition update_status ::
  "(string \<Rightarrow> json option) \<Rightarrow> json \<Rightarrow> client \<Rightarrow> (error + unit) \<times> client" where
  "update_status loads data c =
     on_ok (dict_get data ''main'' (JObj [])) c (\<lambda>dev_data.
     on_ok (get_value dev_data ''volume'' (JNum 0)) c (\<lambda>device_volume.
     on_ok (parse_volume device_volume) c (\<lambda>v.
     (let c = c\<lparr>volume := v\<rparr> in
     on_ok (get_value dev_data ''mute'' (JStr '''')) c (\<lambda>device_muted.
     (let c = c\<lparr>muted := (device_muted = JStr ''mute'')\<rparr> in
     on_ok (get_value dev_data ''soundMode'' JNull) c (\<lambda>sm.
     (let c = c\<lparr>sound_mode := sm\<rparr> in
     on_ok (load_json_list loads dev_data ''supportedSoundModes'') c (\<lambda>sml.
     (let c = c\<lparr>sound_mode_list := sml\<rparr> in
     on_ok (load_json_list loads dev_data ''supportedSoundModesMap'') c (\<lambda>smm.
     (let c = c\<lparr>sound_mode_list_map := smm\<rparr> in
     on_ok (get_value dev_data ''pictureMode'' JNull) c (\<lambda>pm.
     (let c = c\<lparr>picture_mode := pm\<rparr> in
     on_ok (load_json_list loads dev_data ''supportedPictureModes'') c (\<lambda>pml.
     (let c = c\<lparr>picture_mode_list := pml\<rparr> in
     on_ok (load_json_list loads dev_data ''supportedPictureModesMap'') c (\<lambda>pmm.
     (let c = c\<lparr>picture_mode_list_map := pmm\<rparr> in
     on_ok (load_json_list loads dev_data ''supportedInputSourcesMap'') c (\<lambda>slm.
     (let c = c\<lparr>source_list_map := slm\<rparr> in
     on_ok (get_source_list_from_map c) c (\<lambda>sl.
     (let c = c\<lparr>source_list := JArr (map JStr sl)\<rparr> in
     update_source_channel dev_data c))))))))))))))))))))))"

definition caught :: "error \<Rightarrow> bool" where
  "caught e = (e = AsyncTimeoutError \<or> e = ClientConnectionError \<or> e = ClientResponseError)"

definition async_device_update ::
  "(string \<Rightarrow> json option) \<Rightarrow> server \<Rightarrow> rat \<Rightarrow> bool option \<Rightarrow> client \<Rightarrow> (error + unit) \<times> client" where
  "async_device_update loads srv now use_channel_info_arg c =
     (if device_id c = [] then (Inr (), c)
      else
        (let c = (case use_channel_info_arg of
                    None \<Rightarrow> c
                  | Some b \<Rightarrow> c\<lparr>use_channel_info := b\<rparr>);
             c = c\<lparr>prev_state := state c\<rparr>
         in case async_device_health srv c of
              (Inl e, c) \<Rightarrow>
                if caught e then (Inr (), c\<lparr>state := STATE_UNKNOWN\<rparr>) else (Inl e, c)
            | (Inr is_online, c) \<Rightarrow>
                if \<not> is_online then (Inr (), c\<lparr>state := STATE_OFF\<rparr>)
                else
                  (case device_refresh srv now (c\<lparr>state := STATE_ON\<rparr>) of
                     (Inl e, c) \<Rightarrow> (Inl e, c)
                   | (Inr _, c) \<Rightarrow>
                       if state c = STATE_OFF then (Inr (), c)
                       else
                         (let c = c\<lparr>sent := sent c @ [GetStates]\<rparr>
                          in case checked_json (states_response srv) of
                               Inl e \<Rightarrow> (Inl e, c)
                             | Inr data \<Rightarrow> update_status loads data c))))"

section \<open>Command methods\<close>

definition async_turn_off :: "server \<Rightarrow> rat \<Rightarrow> client \<Rightarrow> (error + unit) \<times> client" where
  "async_turn_off srv now c = p_async_send_command srv now (Some (command COMMAND_POWER_OFF [])) c"

definition async_turn_on :: "server \<Rightarrow> rat \<Rightarrow> client \<Rightarrow> (error + unit) \<times> client" where
  "async_turn_on srv now c = p_async_send_command srv now (Some (command COMMAND_POWER_ON [])) c"

text \<open>
  \<^verbatim>\<open>async_send_command(cmd_type, command="")\<close>: an unknown \<open>cmd_type\<close> returns at once; a
  known one with an unknown step leaves \<^verbatim>\<open>data_cmd = None\<close>.
\<close>

definition async_send_command ::
  "server \<Rightarrow> rat \<Rightarrow> string \<Rightarrow> json \<Rightarrow> client \<Rightarrow> (error + unit) \<times> client" where
  "async_send_command srv now cmd_type cmd c =
     (if cmd_type = ''setvolume'' then
        (case py_int cmd of
           Inl e \<Rightarrow> (Inl e, c)
         | Inr n \<Rightarrow>
             p_async_send_command srv now (Some (command COMMAND_SET_VOLUME [JNum (of_int n)])) c)
      else if cmd_type = ''stepvolume'' then
        p_async_send_command srv now
          (if cmd = JStr ''up'' then Some (command COMMAND_VOLUME_UP [])
           else if cmd = JStr ''down'' then Some (command COMMAND_VOLUME_DOWN [])
           else None) c
      else if cmd_type = ''audiomute'' then
        p_async_send_command srv now
          (if cmd = JStr ''on'' then Some (command COMMAND_MUTE [])
           else if cmd = JStr ''off'' then Some (command COMMAND_UNMUTE [])
           else None) c
      else if cmd_type = ''selectchannel'' then
        p_async_send_command srv now (Some (command COMMAND_SET_CHANNEL [cmd])) c
      else if cmd_type = ''stepchannel'' then
        p_async_send_command srv now
          (if cmd = JStr ''up'' then Some (command COMMAND_CHANNEL_UP [])
           else if cmd = JStr ''down'' then Some (command COMMAND_CHANNEL_DOWN [])
           else None) c
      else (Inr (), c))"

definition async_select_source ::
  "server \<Rightarrow> rat \<Rightarrow> string \<Rightarrow> client \<Rightarrow> (error + unit) \<times> client" where
  "async_select_source srv now src c =
     p_async_send_command srv now (Some (command COMMAND_SET_SOURCE [JStr src]))
       (set_source src c)"

definition async_select_vd_source ::
  "server \<Rightarrow> rat \<Rightarrow> string \<Rightarrow> client \<Rightarrow> (error + unit) \<times> client" where
  "async_select_vd_source srv now src c =
     p_async_send_command srv now (Some (command COMMAND_SET_VD_SOURCE [JStr src])) c"

text \<open>
  The lookup loop of the two mode setters: the id of the first entry whose name is the
  requested mode, \<open>JNull\<close> (\<^verbatim>\<open>None\<close>) when no entry matches or the match has no id.
\<close>

fun find_mode_id :: "json list \<Rightarrow> string \<Rightarrow> error + json" where
  "find_mode_id [] mode = Inr JNull"
| "find_mode_id (m # rest) mode =
     (case dict_get m ''name'' JNull of
        Inl e \<Rightarrow> Inl e
      | Inr nm \<Rightarrow>
          if nm = JStr mode then dict_get m ''id'' JNull
          else find_mode_id rest mode)"

definition async_set_sound_mode ::
  "server \<Rightarrow> rat \<Rightarrow> string \<Rightarrow> client \<Rightarrow> (error + unit) \<times> client" where
  "async_set_sound_mode srv now mode c =
     (if state c \<noteq> STATE_ON then (Inr (), c)
      else
        (case py_iter (sound_mode_list_map c) of
           Inl e \<Rightarrow> (Inl e, c)
         | Inr modes \<Rightarrow>
             (case find_mode_id modes mode of
                Inl e \<Rightarrow> (Inl e, c)
              | Inr mode_id \<Rightarrow>
                  if mode_id = JNull then (Inl InvalidSmartThingsSoundMode, c)
                  else
                    (case p_async_send_command srv now
                            (Some (command COMMAND_SOUND_MODE [mode_id])) c of
                       (Inl e, c) \<Rightarrow> (Inl e, c)
                     | (Inr _, c) \<Rightarrow> (Inr (), c\<lparr>sound_mode := JStr mode\<rparr>)))))"

definition async_set_picture_mode ::
  "server \<Rightarrow> rat \<Rightarrow> string \<Rightarrow> client \<Rightarrow> (error + unit) \<times> client" where
  "async_set_picture_mode srv now mode c =
     (if state c \<noteq> STATE_ON then (Inr (), c)
      else
        (case py_iter (picture_mode_list_map c) of
           Inl e \<Rightarrow> (Inl e, c)
         | Inr modes \<Rightarrow>
             (case find_mode_id modes mode of
                Inl e \<Rightarrow> (Inl e, c)
              | Inr mode_id \<Rightarrow>
                  if mode_id = JNull then (Inl InvalidSmartThingsPictureMode, c)
                  else
                    (case p_async_send_command srv now
                            (Some (command COMMAND_PICTURE_MODE [mode_id])) c of
                       (Inl e, c) \<Rightarrow> (Inl e, c)
                     | (Inr _, c) \<Rightarrow> (Inr (), c\<lparr>picture_mode := JStr mode\<rparr>)))))"

section \<open>The public operations as one step function\<close>

datatype command_call =
    TurnOff
  | TurnOn
  | SendCommand string json
  | SelectSource string
  | SelectVdSource string
  | SetSoundMode string
  | SetPictureMode string

datatype action = Update "bool option" | Command command_call | SetApplication string

fun run_command :: "server \<Rightarrow> rat \<Rightarrow> command_call \<Rightarrow> client \<Rightarrow> (error + unit) \<times> client" where
  "run_command srv now TurnOff c = async_turn_off srv now c"
| "run_command srv now TurnOn c = async_turn_on srv now c"
| "run_command srv now (SendCommand cmd_type cmd) c = async_send_command srv now cmd_type cmd c"
| "run_command srv now (SelectSource src) c = async_select_source srv now src c"
| "run_command srv now (SelectVdSource src) c = async_select_vd_source srv now src c"
| "run_command srv now (SetSoundMode mode) c = async_set_sound_mode srv now mode c"
| "run_command srv now (SetPictureMode mode) c = async_set_picture_mode srv now mode c"

fun perform ::
  "(string \<Rightarrow> json option) \<Rightarrow> server \<Rightarrow> rat \<Rightarrow> action \<Rightarrow> client \<Rightarrow> (error + unit) \<times> client" where
  "perform loads srv now (Update a) c = async_device_update loads srv now a c"
| "perform loads srv now (Command cmd) c = run_command srv now cmd c"
| "perform loads srv now (SetApplication app_id) c = (Inr (), set_application app_id c)"

section \<open>Observations\<close>

fun is_dict :: "json \<Rightarrow> bool" where
  "is_dict (JObj kvs) = True"
| "is_dict _ = False"

text \<open>
  An entry of a source map that the derivation of the source list can read: a dict
  whose \<^verbatim>\<open>id\<close> is a string, or is missing or falsy (such an entry is skipped).
\<close>

definition entry_ok :: "json \<Rightarrow> bool" where
  "entry_ok e =
     (case dict_get e ''id'' JNull of
        Inl err \<Rightarrow> False
      | Inr v \<Rightarrow> (case v of JStr s \<Rightarrow> True | _ \<Rightarrow> \<not> truthy v))"

text \<open>
  The derivation of the source list in the spec's words: the ids of the map's entries,
  each passed through the substitution of the constant label for an id that is "dtv" in
  any capitalisation. Entries without a non-empty string id contribute nothing.
\<close>

definition dtv_label :: "string \<Rightarrow> string" where
  "dtv_label s = (if upper s = ''DTV'' then DIGITAL_TV else s)"

fun entry_ids :: "json list \<Rightarrow> string list" where
  "entry_ids [] = []"
| "entry_ids (e # es) =
     (case dict_get e ''id'' JNull of
        Inr (JStr s) \<Rightarrow> if s \<noteq> [] then s # entry_ids es else entry_ids es
      | _ \<Rightarrow> entry_ids es)"

text \<open>The number of refresh-trigger requests in a trace.\<close>

definition refresh_count :: "request list \<Rightarrow> nat" where
  "refresh_count xs = length (filter (\<lambda>q. q = PostCommand (command COMMAND_REFRESH [])) xs)"

text \<open>The requests an operation issued: what \<open>sent\<close> gained between two clients.\<close>

definition issued :: "client \<Rightarrow> client \<Rightarrow> request list" where
  "issued c c' = drop (length (sent c)) (sent c')"

text \<open>
  What a state document reports for a field: the value at \<^verbatim>\<open>main.<name>.value\<close>, or
  the default the code passes when a key is missing.
\<close>

definition reported :: "json \<Rightarrow> string \<Rightarrow> json \<Rightarrow> error + json" where
  "reported data name dflt =
     (case dict_get data ''main'' (JObj []) of
        Inl e \<Rightarrow> Inl e
      | Inr dev_data \<Rightarrow> get_value dev_data name dflt)"

text \<open>Two clients with the same cached telemetry, override latch and device id.\<close>

definition same_telemetry :: "client \<Rightarrow> client \<Rightarrow> bool" where
  "same_telemetry c c' =
     (volume c' = volume c \<and> muted c' = muted c
      \<and> sound_mode c' = sound_mode c \<and> sound_mode_list c' = sound_mode_list c
      \<and> sound_mode_list_map c' = sound_mode_list_map c
      \<and> picture_mode c' = picture_mode c \<and> picture_mode_list c' = picture_mode_list c
      \<and> picture_mode_list_map c' = picture_mode_list_map c
      \<and> source_list c' = source_list c \<and> source_list_map c' = source_list_map c
      \<and> source c' = source c \<and> channel c' = channel c \<and> channel_name c' = channel_name c
      \<and> is_forced_val c' = is_forced_val c \<and> forced_count c' = forced_count c
      \<and> device_id c' = device_id c)"

text \<open>What a command method leaves alone, and what it may send.\<close>

definition command_frame :: "client \<Rightarrow> client \<Rightarrow> bool" where
  "command_frame c c' =
     (volume c' = volume c \<and> muted c' = muted c
      \<and> sound_mode_list c' = sound_mode_list c
      \<and> sound_mode_list_map c' = sound_mode_list_map c
      \<and> picture_mode_list c' = picture_mode_list c
      \<and> picture_mode_list_map c' = picture_mode_list_map c
      \<and> source_list c' = source_list c \<and> source_list_map c' = source_list_map c
      \<and> prev_state c' = prev_state c \<and> use_channel_info c' = use_channel_info c
      \<and> device_id c' = device_id c)"

text \<open>
  The effect of a command method: the frame above; at most the command POST followed by
  the refresh-trigger POST; and, once the command POST was issued and answered, the
  refresh trigger exactly when the throttle gate is open and channel info is in use.
\<close>

definition send_effect :: "server \<Rightarrow> rat \<Rightarrow> client \<Rightarrow> client \<Rightarrow> bool" where
  "send_effect srv now c c' =
     (command_frame c c'
      \<and> (issued c c' = [] \<or> (\<exists>p. issued c c' = [PostCommand p])
         \<or> (\<exists>p. issued c c' = [PostCommand p, PostCommand (command COMMAND_REFRESH [])]))
      \<and> (\<forall>j. issued c c' \<noteq> [] \<and> checked_json (command_response srv) = Inr j \<longrightarrow>
            (if throttle_open now (throttle_last c) \<and> use_channel_info c
             then \<exists>p. issued c c' = [PostCommand p, PostCommand (command COMMAND_REFRESH [])]
             else \<exists>p. issued c c' = [PostCommand p])))"

text \<open>
  The trace of one operation: what it appended, with at most one refresh trigger, and
  with the gate's timestamp set to the time of the call when the trigger was posted.
\<close>

definition trace_ok :: "rat \<Rightarrow> client \<Rightarrow> client \<Rightarrow> bool" where
  "trace_ok t c c' =
     (\<exists>xs. sent c' = sent c @ xs \<and> refresh_count xs \<le> 1
        \<and> (refresh_count xs = 1 \<longrightarrow> throttle_last c' = Some t \<and> throttle_open t (throttle_last c))
        \<and> (throttle_last c' = throttle_last c \<or> throttle_last c' = Some t))"

section \<open>Example devices\<close>

definition http_ok :: "json \<Rightarrow> error + response" where
  "http_ok j = Inr \<lparr>status = 200, body = Inr j\<rparr>"

definition http_status :: "nat \<Rightarrow> error + response" where
  "http_status n = Inr \<lparr>status = n, body = Inr (JObj [])\<rparr>"

text \<open>A document whose \<^verbatim>\<open>main\<close> component wraps each given field as \<^verbatim>\<open>{"value": v}\<close>.\<close>

definition state_doc :: "(string \<times> json) list \<Rightarrow> json" where
  "state_doc kvs = JObj [(''main'', JObj (map (\<lambda>kv. (fst kv, JObj [(''value'', snd kv)])) kvs))]"

definition server_online :: "json \<Rightarrow> server" where
  "server_online doc =
     \<lparr> health_response = http_ok (JObj [(''state'', JStr ''ONLINE'')]),
       refresh_response = http_ok (JObj []),
       states_response = http_ok doc,
       command_response = http_ok (JObj []) \<rparr>"

definition server_down :: server where
  "server_down =
     \<lparr> health_response = Inl ClientConnectionError,
       refresh_response = Inl ClientConnectionError,
       states_response = Inl ClientConnectionError,
       command_response = Inl ClientConnectionError \<rparr>"

text \<open>Servers whose health endpoint answers with HTTP 500, and not in time.\<close>

definition server_failing :: server where
  "server_failing = (server_online JNull)\<lparr>health_response := http_status 500\<rparr>"

definition server_slow :: server where
  "server_slow = (server_online JNull)\<lparr>health_response := Inl AsyncTimeoutError\<rparr>"

text \<open>A decoder that knows one source map and one sound-mode map.\<close>

definition loads0 :: "string \<Rightarrow> json option" where
  \<open>loads0 s =
     (if s = ''[{"id": "dtv", "name": "TV"}, {"id": "HDMI1", "name": "Console"}]''
      then Some (JArr [JObj [(''id'', JStr ''dtv''), (''name'', JStr ''TV'')],
                       JObj [(''id'', JStr ''HDMI1''), (''name'', JStr ''Console'')]])
      else if s = ''[{"id": "1", "name": "Standard"}]''
      then Some (JArr [JObj [(''id'', JStr ''1''), (''name'', JStr ''Standard'')]])
      else None)\<close>

definition tv0 :: client where
  "tv0 = init ''key'' ''tv'' True True"

text \<open>A client that is on, with a source and a channel cached.\<close>

definition tv_on :: client where
  "tv_on = tv0\<lparr>state := STATE_ON, volume := 1 / 4, source := JStr ''HDMI2'',
               channel := JStr ''5'', channel_name := JStr ''News''\<rparr>"

text \<open>Documents reporting a given volume, and clients with mode and source maps.\<close>

definition doc_vol :: "json \<Rightarrow> json" where
  "doc_vol v =
     state_doc [(''volume'', v), (''mute'', JStr ''mute''), (''inputSource'', JStr ''HDMI1'')]"

definition tv_modes :: client where
  "tv_modes = tv_on\<lparr>sound_mode := JStr ''Standard'',
      sound_mode_list_map := JArr [JObj [(''id'', JStr ''1''), (''name'', JStr ''Standard'')]],
      picture_mode_list_map := JArr [JObj [(''id'', JStr ''7''), (''name'', JStr ''Movie'')]]\<rparr>"

definition tv_upper_dtv :: client where
  "tv_upper_dtv =
     tv_on\<lparr>source_list_map := JArr [JObj [(''id'', JStr ''DTV''), (''name'', JStr ''TV'')]]\<rparr>"

text \<open>A document with an embedded source map, and a client whose map has mixed entries.\<close>

definition doc_sources :: json where
  \<open>doc_sources =
     state_doc [(''supportedInputSourcesMap'',
                 JStr ''[{"id": "dtv", "name": "TV"}, {"id": "HDMI1", "name": "Console"}]'')]\<close>

definition mixed_entries :: "json list" where
  "mixed_entries =
     [JObj [(''id'', JStr ''Dtv''), (''name'', JStr ''TV'')],
      JObj [(''name'', JStr ''unnamed input'')],
      JObj [(''id'', JStr ''HDMI1'')]]"

definition tv_sources :: client where
  "tv_sources = tv_on\<lparr>source_list_map := JArr mixed_entries\<rparr>"

text \<open>
  A document reporting source, channel and channel name; a client that does not use
  channel info; and the clients after selecting a source on \<open>tv_on\<close>, after the next
  update, and after the one that follows.
\<close>

definition doc_news :: json where
  "doc_news = state_doc [(''volume'', JStr ''30''), (''inputSource'', JStr ''HDMI2''),
                         (''tvChannel'', JStr ''5''), (''tvChannelName'', JStr ''News'')]"

definition tv_no_channel_info :: client where
  "tv_no_channel_info = init ''key'' ''tv'' False True"

definition tv_selected :: client where
  "tv_selected =
     tv_on\<lparr>source := JStr ''HDMI1'', channel := JStr '''', channel_name := JStr '''',
           is_forced_val := True, forced_count := 0, throttle_last := Some 0,
           sent := [PostCommand (command COMMAND_SET_SOURCE [JStr ''HDMI1'']),
                    PostCommand (command COMMAND_REFRESH [])]\<rparr>"

definition tv_held :: client where
  "tv_held =
     tv_selected\<lparr>prev_state := STATE_ON, volume := 3 / 10,
           source_list := JArr [], source_list_map := JArr [],
           sound_mode_list := JArr [], sound_mode_list_map := JArr [],
           picture_mode_list := JArr [], picture_mode_list_map := JArr [],
           forced_count := 1, throttle_last := Some 15,
           sent := sent tv_selected
                   @ [GetHealth, PostCommand (command COMMAND_REFRESH []), GetStates]\<rparr>"

definition tv_adopted :: client where
  "tv_adopted =
     tv_held\<lparr>source := JStr ''HDMI2'', channel := JStr ''5'', channel_name := JStr ''News'',
           is_forced_val := False, forced_count := 0, throttle_last := Some 30,
           sent := sent tv_held
                   @ [GetHealth, PostCommand (command COMMAND_REFRESH []), GetStates]\<rparr>"

text \<open>
  A server whose state endpoint answers with HTTP 500, and the client a fresh one
  becomes by an update against it: on, with nothing loaded.
\<close>

definition server_states_failing :: server where
  "server_states_failing = (server_online JNull)\<lparr>states_response := http_status 500\<rparr>"

definition tv_unloaded :: client where
  "tv_unloaded =
     tv0\<lparr>state := STATE_ON, throttle_last := Some 0,
          sent := [GetHealth, PostCommand (command COMMAND_REFRESH []), GetStates]\<rparr>"

text \<open>Clients whose source map has an entry with an empty id, and with a numeric id.\<close>

definition tv_blank_id :: client where
  "tv_blank_id =
     tv_on\<lparr>source_list_map := JArr [JObj [(''id'', JStr ''DTV''), (''name'', JStr ''TV'')],
                                     JObj [(''id'', JStr ''''), (''name'', JStr ''Blank'')]]\<rparr>"

definition tv_numeric_id :: client where
  "tv_numeric_id =
     tv_on\<lparr>source_list_map := JArr [JObj [(''id'', JStr ''DTV''), (''name'', JStr ''TV'')],
                                     JObj [(''id'', JNum 7), (''name'', JStr ''Seven'')]]\<rparr>"

section \<open>Reading a volume\<close>

lemma digit_char_facts:
  assumes "is_digit_char c"
  shows "\<not> is_space c" and "c \<noteq> CHR ''-''" and "c \<noteq> CHR ''+''" and "c \<noteq> CHR ''_''"
  using assms by (auto simp: is_digit_char_def is_ascii_digit_def is_space_def)

lemma strip_id:
  assumes "s \<noteq> []" and "\<not> is_space (hd s)" and "\<not> is_space (last s)"
  shows "strip s = s"
proof -
  from assms have a: "dropWhile is_space s = s" by (cases s) auto
  from assms have "dropWhile is_space (rev s) = rev s"
    by (cases "rev s") (auto simp: hd_rev)
  with a show ?thesis by (simp add: strip_def)
qed

lemma valid_digits_of_digit_chars:
  "list_all is_digit_char s \<Longrightarrow> valid_digits s = (s \<noteq> [] \<and> list_all is_ascii_digit s)"
  by (induction s rule: valid_digits.induct) (auto dest: digit_char_facts(4))

lemma filter_digit_chars:
  "list_all is_digit_char s \<Longrightarrow> filter (\<lambda>c. c \<noteq> CHR ''_'') s = s"
  by (induction s) (auto dest: digit_char_facts(4))

lemma int_of_string_isdigit:
  assumes "isdigit s"
  shows "int_of_string s =
           (if ascii_digits s \<and> length s \<le> max_str_digits then Inr (int_of_digits s)
            else Inl ValueError)"
proof -
  from assms have ne: "s \<noteq> []" and all: "list_all is_digit_char s"
    by (simp_all add: isdigit_def)
  from ne all have "is_digit_char (hd s)" "is_digit_char (last s)"
    by (simp_all add: list_all_iff)
  with ne have st: "strip s = s" and sg: "hd s \<noteq> CHR ''-''" "hd s \<noteq> CHR ''+''"
    by (auto intro: strip_id dest: digit_char_facts)
  show ?thesis
    using ne sg valid_digits_of_digit_chars [OF all] filter_digit_chars [OF all]
    by (simp add: int_of_string_def st Let_def ascii_digits_def)
qed

lemma ascii_digits_isdigit: "ascii_digits s \<Longrightarrow> isdigit s"
  by (auto simp: ascii_digits_def isdigit_def is_digit_char_def list_all_iff)

lemma true_div_100_small:
  assumes "0 \<le> n" and "n \<le> 1000000"
  shows "true_div n 100 = Inr (of_int n / 100)"
proof -
  from assms have "\<bar>of_int n / (100 :: rat)\<bar> \<le> 10000" by simp
  moreover have "(10000 :: rat) < 2 ^ 1024 - 2 ^ 970" by simp
  ultimately show ?thesis by (simp add: true_div_def float_overflow_def)
qed

lemma int_of_digits_snoc:
  "int_of_digits (s @ [c]) = 10 * int_of_digits s + (int (of_char c) - 48)"
  by (simp add: int_of_digits_def)

lemma int_of_digits_nonneg: "list_all is_ascii_digit s \<Longrightarrow> 0 \<le> int_of_digits s"
proof (induction s rule: rev_induct)
  case Nil
  then show ?case by (simp add: int_of_digits_def)
next
  case (snoc c s)
  then show ?case by (simp add: int_of_digits_snoc is_ascii_digit_def)
qed

lemma parse_volume_digits:
  assumes "ascii_digits s" and "length s \<le> max_str_digits" and "int_of_digits s \<le> 1000000"
  shows "parse_volume (JStr s) = Inr (of_int (int_of_digits s) / 100)"
proof -
  from assms(1) have nn: "0 \<le> int_of_digits s"
    by (simp add: ascii_digits_def int_of_digits_nonneg)
  from assms(1) have "s \<noteq> []" by (simp add: ascii_digits_def)
  with assms ascii_digits_isdigit [OF assms(1)] true_div_100_small [OF nn assms(3)]
  show ?thesis
    by (simp add: parse_volume_def int_of_string_isdigit)
qed

lemma parse_volume_other:
  "\<not> isdigit s \<Longrightarrow> parse_volume (JStr s) = Inr 0"
  "parse_volume (JNum 0) = Inr 0"
  by (simp_all add: parse_volume_def)

lemma parse_volume_range:
  assumes "parse_volume v = Inr x"
    and "\<forall>s. v = JStr s \<and> ascii_digits s \<longrightarrow> int_of_digits s \<le> 100"
  shows "0 \<le> x \<and> x \<le> 1"
proof (cases "\<exists>s. v = JStr s \<and> isdigit s")
  case True
  then obtain s where s: "v = JStr s" "isdigit s" by blast
  then have "s \<noteq> []" by (simp add: isdigit_def)
  with s assms(1) obtain n where n: "int_of_string s = Inr n" and d: "true_div n 100 = Inr x"
    by (auto simp: parse_volume_def split: if_splits sum.splits)
  from n int_of_string_isdigit [OF s(2)]
  have a: "ascii_digits s" and nv: "n = int_of_digits s"
    by (auto split: if_splits)
  from a have nn: "0 \<le> n" unfolding nv by (simp add: ascii_digits_def int_of_digits_nonneg)
  from a s assms(2) nv have le: "n \<le> 100" by blast
  from d have "x = of_int n / 100" by (auto simp: true_div_def split: if_splits)
  with nn le show ?thesis by simp
next
  case False
  with assms(1) have "x = 0"
    by (auto simp: parse_volume_def split: if_splits json.splits)
  then show ?thesis by simp
qed

lemma parse_volume_examples:
  "parse_volume (JStr ''42'') = Inr (21 / 50)"
  "parse_volume (JStr ''100'') = Inr 1"
  "parse_volume (JStr ''loud'') = Inr 0"
  "parse_volume (JStr ''30'') = Inr (3 / 10)"
  "parse_volume (JStr ''150'') = Inr (3 / 2)"
  "parse_volume (JNum 0) = Inr 0"
proof -
  have d: "ascii_digits ''42''" "ascii_digits ''100''" "ascii_digits ''30''" "ascii_digits ''150''"
    by (simp_all add: ascii_digits_def is_ascii_digit_def)
  have v: "int_of_digits ''42'' = 42" "int_of_digits ''100'' = 100" "int_of_digits ''30'' = 30"
    "int_of_digits ''150'' = 150"
    by (simp_all add: int_of_digits_def)
  have l: "\<not> isdigit ''loud''"
    by (simp add: isdigit_def is_digit_char_def is_ascii_digit_def)
  show "parse_volume (JStr ''42'') = Inr (21 / 50)"
    using parse_volume_digits [OF d(1)] by (simp add: v max_str_digits_def)
  show "parse_volume (JStr ''100'') = Inr 1"
    using parse_volume_digits [OF d(2)] by (simp add: v max_str_digits_def)
  show "parse_volume (JStr ''30'') = Inr (3 / 10)"
    using parse_volume_digits [OF d(3)] by (simp add: v max_str_digits_def)
  show "parse_volume (JStr ''150'') = Inr (3 / 2)"
    using parse_volume_digits [OF d(4)] by (simp add: v max_str_digits_def)
  show "parse_volume (JStr ''loud'') = Inr 0" using l by (rule parse_volume_other(1))
  show "parse_volume (JNum 0) = Inr 0" by (rule parse_volume_other(2))
qed

text \<open>
  The volume step on a string that \<^verbatim>\<open>isdigit\<close> accepts: the hundredth of its value, or
  one of the two errors. A superscript digit makes \<^verbatim>\<open>int\<close> raise; a value such as ten
  to the 400 makes the division raise.
\<close>

lemma parse_volume_isdigit:
  assumes "isdigit s"
  shows "parse_volume (JStr s) =
           (if ascii_digits s \<and> length s \<le> max_str_digits
            then true_div (int_of_digits s) 100 else Inl ValueError)"
proof -
  from assms have "s \<noteq> []" by (simp add: isdigit_def)
  with assms show ?thesis by (simp add: parse_volume_def int_of_string_isdigit)
qed

lemma parse_volume_raises:
  "parse_volume (JStr [CHR 0xB2]) = Inl ValueError"
  "true_div (10 ^ 400) 100 = Inl OverflowError"
proof -
  have "isdigit [CHR 0xB2]" "\<not> ascii_digits [CHR 0xB2]"
    by (simp_all add: isdigit_def ascii_digits_def is_digit_char_def is_ascii_digit_def)
  then show "parse_volume (JStr [CHR 0xB2]) = Inl ValueError"
    by (simp add: parse_volume_isdigit)
  show "true_div (10 ^ 400) 100 = Inl OverflowError"
    by (simp add: true_div_def float_overflow_def)
qed

section \<open>Unfolding sets\<close>

lemmas send_defs =
  p_async_send_command_def device_refresh_def device_refresh_body_def throttle_open_def
  checked_json_def MIN_TIME_BETWEEN_UPDATES_def Let_def

lemmas example_defs =
  tv_on_def tv0_def init_def server_online_def server_down_def http_ok_def http_status_def
  state_doc_def doc_vol_def tv_modes_def tv_upper_dtv_def doc_sources_def mixed_entries_def
  tv_sources_def loads0_def

lemmas example2_defs =
  doc_news_def tv_no_channel_info_def tv_selected_def tv_held_def tv_adopted_def

lemmas update_defs =
  async_device_update_def async_device_health_def health_result_def update_status_def
  update_source_channel_def on_ok_def get_value_def load_json_list_def parse_volume_examples
  canonical_source_def get_source_list_from_map_def

lemmas string_defs =
  isdigit_def is_digit_char_def ascii_digits_def is_ascii_digit_def int_of_digits_def
  upper_def upper_char_def DIGITAL_TV_def

section \<open>Frame lemmas\<close>

lemma device_refresh_body_frame:
  "device_refresh_body srv c = (r, c') \<Longrightarrow> c'\<lparr>state := state c, sent := sent c\<rparr> = c"
  by (auto simp: device_refresh_body_def Let_def split: if_splits sum.splits)

lemma device_refresh_frame:
  "device_refresh srv now c = (r, c') \<Longrightarrow>
     c'\<lparr>state := state c, throttle_last := throttle_last c, sent := sent c\<rparr> = c"
  by (auto simp: device_refresh_def device_refresh_body_def Let_def split: if_splits sum.splits)

lemma p_async_send_command_frame:
  "p_async_send_command srv now d c = (r, c') \<Longrightarrow>
     c'\<lparr>state := state c, throttle_last := throttle_last c, sent := sent c\<rparr> = c"
  by (auto simp: p_async_send_command_def device_refresh_def device_refresh_body_def Let_def
      split: if_splits option.splits sum.splits)

lemma p_async_send_command_issued:
  assumes "p_async_send_command srv now d c = (r, c')"
  shows "issued c c' = [] \<or> (\<exists>p. issued c c' = [PostCommand p])
         \<or> (\<exists>p. issued c c' = [PostCommand p, PostCommand (command COMMAND_REFRESH [])])"
  using assms
  by (auto simp: issued_def p_async_send_command_def device_refresh_def device_refresh_body_def
      Let_def split: if_splits option.splits sum.splits)

lemma p_async_send_command_telemetry:
  assumes "p_async_send_command srv now d c = (r, c')"
  shows "same_telemetry c c' \<and> prev_state c' = prev_state c
         \<and> use_channel_info c' = use_channel_info c"
  using p_async_send_command_frame [OF assms] unfolding same_telemetry_def
  by (cases c'; cases c; simp)

section \<open>What a command method changes and sends\<close>

lemma same_telemetry_refl [simp]: "same_telemetry c c"
  by (simp add: same_telemetry_def)

lemma async_send_command_cases:
  assumes "async_send_command srv now cmd_type cmd c = (r, c')"
  shows "c' = c \<or> (\<exists>d. p_async_send_command srv now d c = (r, c'))"
  using assms
  by (auto simp: async_send_command_def split: if_splits sum.splits)

lemma p_async_send_command_refresh:
  assumes "p_async_send_command srv now d c = (r, c')"
    and "issued c c' \<noteq> []" and "checked_json (command_response srv) = Inr j"
  shows "if throttle_open now (throttle_last c) \<and> use_channel_info c
         then \<exists>p. issued c c' = [PostCommand p, PostCommand (command COMMAND_REFRESH [])]
         else \<exists>p. issued c c' = [PostCommand p]"
  using assms
  by (auto simp: issued_def p_async_send_command_def device_refresh_def device_refresh_body_def
      Let_def split: if_splits option.splits sum.splits)

lemma p_async_send_command_effect:
  assumes "p_async_send_command srv now d c = (r, c')"
  shows "send_effect srv now c c'"
  using p_async_send_command_telemetry [OF assms] p_async_send_command_issued [OF assms]
    p_async_send_command_refresh [OF assms]
  unfolding send_effect_def command_frame_def same_telemetry_def by blast

lemma send_effect_refl: "send_effect srv now c c"
  by (simp add: send_effect_def command_frame_def issued_def)

lemma issued_unchanged:
  "issued c (c'\<lparr>sound_mode := m\<rparr>) = issued c c'"
  "issued c (c'\<lparr>picture_mode := m\<rparr>) = issued c c'"
  "issued (set_source s c) c' = issued c c'"
  by (auto simp: issued_def set_source_def)

lemma set_source_keeps:
  "throttle_last (set_source s c) = throttle_last c"
  "use_channel_info (set_source s c) = use_channel_info c"
  "command_frame (set_source s c) c' = command_frame c c'"
  by (auto simp: set_source_def command_frame_def)

lemma send_effect_mode:
  "send_effect srv now c c' \<Longrightarrow> send_effect srv now c (c'\<lparr>sound_mode := m\<rparr>)"
  "send_effect srv now c c' \<Longrightarrow> send_effect srv now c (c'\<lparr>picture_mode := m\<rparr>)"
  by (simp_all add: send_effect_def issued_unchanged) (simp_all add: command_frame_def)

lemma send_effect_set_source:
  "send_effect srv now (set_source s c) c' \<Longrightarrow> send_effect srv now c c'"
  by (simp add: send_effect_def issued_unchanged set_source_keeps cong: if_cong)

lemma run_command_effect:
  assumes "run_command srv now cmd c = (r, c')"
  shows "send_effect srv now c c'"
proof (cases cmd)
  case TurnOff
  with assms show ?thesis
    by (auto simp: async_turn_off_def intro: p_async_send_command_effect)
next
  case TurnOn
  with assms show ?thesis
    by (auto simp: async_turn_on_def intro: p_async_send_command_effect)
next
  case (SendCommand t v)
  with assms async_send_command_cases [of srv now t v c r c'] show ?thesis
    by (auto intro: p_async_send_command_effect send_effect_refl)
next
  case (SelectSource s)
  with assms have "p_async_send_command srv now (Some (command COMMAND_SET_SOURCE [JStr s]))
      (set_source s c) = (r, c')"
    by (simp add: async_select_source_def)
  from p_async_send_command_effect [OF this] show ?thesis
    by (rule send_effect_set_source)
next
  case (SelectVdSource s)
  with assms show ?thesis
    by (auto simp: async_select_vd_source_def intro: p_async_send_command_effect)
next
  case (SetSoundMode m)
  with assms have "c' = c \<or> (\<exists>d r' k. p_async_send_command srv now d c = (r', k)
      \<and> (c' = k \<or> c' = k\<lparr>sound_mode := JStr m\<rparr>))"
    by (auto simp: async_set_sound_mode_def split: if_splits sum.splits prod.splits)
  then show ?thesis
    by (auto intro: p_async_send_command_effect send_effect_refl send_effect_mode)
next
  case (SetPictureMode m)
  with assms have "c' = c \<or> (\<exists>d r' k. p_async_send_command srv now d c = (r', k)
      \<and> (c' = k \<or> c' = k\<lparr>picture_mode := JStr m\<rparr>))"
    by (auto simp: async_set_picture_mode_def split: if_splits sum.splits prod.splits)
  then show ?thesis
    by (auto intro: p_async_send_command_effect send_effect_refl send_effect_mode)
qed

section \<open>The structure of a status update\<close>

lemma update_source_channel_frame:
  assumes "update_source_channel dev c = (r, c')"
  shows "volume c' = volume c \<and> muted c' = muted c
    \<and> sound_mode c' = sound_mode c \<and> sound_mode_list c' = sound_mode_list c
    \<and> sound_mode_list_map c' = sound_mode_list_map c
    \<and> picture_mode c' = picture_mode c \<and> picture_mode_list c' = picture_mode_list c
    \<and> picture_mode_list_map c' = picture_mode_list_map c
    \<and> source_list c' = source_list c \<and> source_list_map c' = source_list_map c
    \<and> state c' = state c \<and> prev_state c' = prev_state c
    \<and> sent c' = sent c \<and> throttle_last c' = throttle_last c
    \<and> device_id c' = device_id c \<and> use_channel_info c' = use_channel_info c"
  using assms
  by (auto simp: update_source_channel_def on_ok_def Let_def split: if_splits sum.splits)

lemma update_source_channel_held:
  "is_forced_val c \<Longrightarrow> forced_count c \<le> 0 \<Longrightarrow>
   update_source_channel dev c = (Inr (), c\<lparr>forced_count := forced_count c + 1\<rparr>)"
  by (simp add: update_source_channel_def)

lemma update_source_channel_adopts:
  assumes "\<not> (is_forced_val c \<and> forced_count c \<le> 0)"
    and "update_source_channel dev c = (Inr (), c')"
  shows "\<exists>src. get_value dev ''inputSource'' (JStr '''') = Inr src
           \<and> canonical_source src = Inr (source c')
           \<and> (if use_channel_info c
               then get_value dev ''tvChannel'' (JStr '''') = Inr (channel c')
                    \<and> get_value dev ''tvChannelName'' (JStr '''') = Inr (channel_name c')
               else channel c' = JStr '''' \<and> channel_name c' = JStr '''')
           \<and> \<not> is_forced_val c' \<and> forced_count c' = 0"
  using assms
  by (auto simp: update_source_channel_def on_ok_def Let_def split: if_splits sum.splits)

lemma update_status_volume:
  assumes "update_status loads data c = (r, c')"
    and "reported data ''volume'' (JNum 0) = Inr v" and "parse_volume v = Inr x"
  shows "volume c' = x"
  using assms
  by (auto simp: update_status_def reported_def on_ok_def Let_def
      dest!: update_source_channel_frame split: sum.splits)


lemma update_source_channel_outer:
  assumes "update_source_channel dev c = (r, c')"
  shows "state c' = state c \<and> prev_state c' = prev_state c
    \<and> sent c' = sent c \<and> throttle_last c' = throttle_last c
    \<and> device_id c' = device_id c \<and> use_channel_info c' = use_channel_info c"
  using update_source_channel_frame [OF assms] by simp

lemma update_status_keeps:
  assumes "update_status loads data c = (r, c')"
  shows "state c' = state c \<and> prev_state c' = prev_state c
    \<and> sent c' = sent c \<and> throttle_last c' = throttle_last c
    \<and> device_id c' = device_id c \<and> use_channel_info c' = use_channel_info c"
  using assms
  by (auto simp: update_status_def on_ok_def Let_def
      dest!: update_source_channel_outer split: sum.splits)

lemma update_status_volume_cases:
  assumes "update_status loads data c = (r, c')"
  shows "volume c' = volume c
         \<or> (\<exists>v. reported data ''volume'' (JNum 0) = Inr v \<and> parse_volume v = Inr (volume c'))"
  using assms
  by (auto simp: update_status_def reported_def on_ok_def Let_def
      dest!: update_source_channel_frame split: sum.splits)

lemma get_source_list_from_map_cong:
  "source_list_map c1 = source_list_map c2 \<Longrightarrow>
   get_source_list_from_map c1 = get_source_list_from_map c2"
  by (simp add: get_source_list_from_map_def)

lemma update_status_source_list:
  assumes "update_status loads data c = (r, c')"
  shows "source_list c' = source_list c
         \<or> (\<exists>ids. get_source_list_from_map c' = Inr ids \<and> source_list c' = JArr (map JStr ids))"
proof -
  have key: "\<And>d k ids. update_source_channel d (k\<lparr>source_list := JArr (map JStr ids)\<rparr>) = (r, c')
      \<Longrightarrow> get_source_list_from_map k = Inr ids
      \<Longrightarrow> get_source_list_from_map c' = Inr ids \<and> source_list c' = JArr (map JStr ids)"
  proof -
    fix d k ids
    assume u: "update_source_channel d (k\<lparr>source_list := JArr (map JStr ids)\<rparr>) = (r, c')"
      and g: "get_source_list_from_map k = Inr ids"
    from update_source_channel_frame [OF u]
    have "source_list c' = JArr (map JStr ids)" and "source_list_map c' = source_list_map k"
      by simp_all
    with g get_source_list_from_map_cong [of c' k]
    show "get_source_list_from_map c' = Inr ids \<and> source_list c' = JArr (map JStr ids)"
      by simp
  qed
  from assms show ?thesis
    by (auto simp: update_status_def on_ok_def Let_def dest!: key split: sum.splits)
qed

lemma update_status_ok:
  assumes "update_status loads data c = (Inr (), c')"
  shows "\<exists>dev c6. dict_get data ''main'' (JObj []) = Inr dev
           \<and> update_source_channel dev c6 = (Inr (), c')
           \<and> source c6 = source c \<and> channel c6 = channel c \<and> channel_name c6 = channel_name c
           \<and> is_forced_val c6 = is_forced_val c \<and> forced_count c6 = forced_count c
           \<and> use_channel_info c6 = use_channel_info c"
  using assms
  by (auto simp: update_status_def on_ok_def Let_def split: sum.splits)

lemma update_status_sources:
  assumes "update_status loads data c = (Inr (), c')"
  shows "\<exists>ids dev. get_source_list_from_map c' = Inr ids \<and> source_list c' = JArr (map JStr ids)
           \<and> dict_get data ''main'' (JObj []) = Inr dev
           \<and> load_json_list loads dev ''supportedInputSourcesMap'' = Inr (source_list_map c')"
proof -
  have key: "\<And>d k ids. update_source_channel d (k\<lparr>source_list := JArr (map JStr ids)\<rparr>) = (Inr (), c')
      \<Longrightarrow> get_source_list_from_map k = Inr ids
      \<Longrightarrow> get_source_list_from_map c' = Inr ids \<and> source_list c' = JArr (map JStr ids)
          \<and> source_list_map c' = source_list_map k"
  proof -
    fix d k ids
    assume u: "update_source_channel d (k\<lparr>source_list := JArr (map JStr ids)\<rparr>) = (Inr (), c')"
      and g: "get_source_list_from_map k = Inr ids"
    from update_source_channel_frame [OF u]
    have "source_list c' = JArr (map JStr ids)" and "source_list_map c' = source_list_map k"
      by simp_all
    with g get_source_list_from_map_cong [of c' k]
    show "get_source_list_from_map c' = Inr ids \<and> source_list c' = JArr (map JStr ids)
          \<and> source_list_map c' = source_list_map k"
      by simp
  qed
  from assms show ?thesis
    by (auto simp: update_status_def on_ok_def Let_def dest!: key split: sum.splits)
qed

lemma device_refresh_sent:
  assumes "device_refresh srv now c = (r, c')"
  shows "sent c' = sent c \<or> sent c' = sent c @ [PostCommand (command COMMAND_REFRESH [])]"
  using assms
  by (auto simp: device_refresh_def device_refresh_body_def Let_def split: if_splits sum.splits)

lemma device_refresh_telemetry:
  assumes "device_refresh srv now c = (r, c')"
  shows "same_telemetry c c' \<and> use_channel_info c' = use_channel_info c
         \<and> prev_state c' = prev_state c"
  using device_refresh_frame [OF assms] unfolding same_telemetry_def
  by (cases c'; cases c; simp)

text \<open>
  An update either stops before the state document is requested, leaving the cached
  telemetry alone, or requests it and runs \<open>update_status\<close> on the answer.
\<close>

lemma update_cases:
  assumes upd: "async_device_update loads srv now a c = (r, c')"
  shows "(GetStates \<notin> set (issued c c') \<and> same_telemetry c c')
       \<or> (\<exists>k. same_telemetry c k
              \<and> use_channel_info k = (case a of None \<Rightarrow> use_channel_info c | Some b \<Rightarrow> b)
              \<and> (case checked_json (states_response srv) of
                    Inl e \<Rightarrow> r = Inl e \<and> c' = k
                  | Inr data \<Rightarrow> update_status loads data k = (r, c')))"
proof (cases "device_id c = []")
  case True
  with upd have "c' = c" by (simp add: async_device_update_def)
  then show ?thesis by (simp add: issued_def same_telemetry_def)
next
  case dev: False
  define c1 where "c1 = (case a of None \<Rightarrow> c | Some b \<Rightarrow> c\<lparr>use_channel_info := b\<rparr>)
                          \<lparr>prev_state := state c, sent := sent c @ [GetHealth]\<rparr>"
  have c1: "same_telemetry c c1" "sent c1 = sent c @ [GetHealth]"
    "use_channel_info c1 = (case a of None \<Rightarrow> use_channel_info c | Some b \<Rightarrow> b)"
    by (cases a; simp add: c1_def same_telemetry_def)+
  have early: "GetStates \<notin> set (issued c (c1\<lparr>state := st\<rparr>))
                 \<and> same_telemetry c (c1\<lparr>state := st\<rparr>)"
    "GetStates \<notin> set (issued c c1) \<and> same_telemetry c c1" for st
    using c1 by (simp_all add: issued_def same_telemetry_def)
  show ?thesis
  proof (cases "health_result srv")
    case (Inl e)
    with upd dev have "c' = c1\<lparr>state := STATE_UNKNOWN\<rparr> \<or> c' = c1"
      by (cases a; cases "caught e")
        (simp_all add: async_device_update_def async_device_health_def c1_def Let_def)
    with early have "GetStates \<notin> set (issued c c') \<and> same_telemetry c c'"
      by blast
    then show ?thesis by (rule disjI1)
  next
    case (Inr online)
    show ?thesis
    proof (cases online)
      case False
      with upd dev Inr have "c' = c1\<lparr>state := STATE_OFF\<rparr>"
        by (cases a) (auto simp: async_device_update_def async_device_health_def c1_def Let_def)
      with early have "GetStates \<notin> set (issued c c') \<and> same_telemetry c c'"
        by blast
      then show ?thesis by (rule disjI1)
    next
      case True
      obtain r1 k0 where dr: "device_refresh srv now (c1\<lparr>state := STATE_ON\<rparr>) = (r1, k0)"
        by fastforce
      from device_refresh_telemetry [OF dr] c1
      have k0: "same_telemetry c k0"
        "use_channel_info k0 = (case a of None \<Rightarrow> use_channel_info c | Some b \<Rightarrow> b)"
        by (simp_all add: same_telemetry_def)
      from device_refresh_sent [OF dr] c1
      have sent0: "GetStates \<notin> set (issued c k0)"
        by (auto simp: issued_def)
      have unfold: "async_device_update loads srv now a c =
          (case r1 of
             Inl e \<Rightarrow> (Inl e, k0)
           | Inr u \<Rightarrow>
               if state k0 = STATE_OFF then (Inr (), k0)
               else (case checked_json (states_response srv) of
                       Inl e \<Rightarrow> (Inl e, k0\<lparr>sent := sent k0 @ [GetStates]\<rparr>)
                     | Inr data \<Rightarrow> update_status loads data (k0\<lparr>sent := sent k0 @ [GetStates]\<rparr>)))"
        using dev Inr True dr
        by (cases a) (auto simp: async_device_update_def async_device_health_def c1_def Let_def
            split: sum.splits)
      show ?thesis
      proof (cases "(\<exists>e. r1 = Inl e) \<or> state k0 = STATE_OFF")
        case True
        with upd unfold have "c' = k0" by (auto split: sum.splits)
        with k0 sent0 have "GetStates \<notin> set (issued c c') \<and> same_telemetry c c'"
          by simp
        then show ?thesis by (rule disjI1)
      next
        case False
        then obtain u where r1: "r1 = Inr u" and on: "state k0 \<noteq> STATE_OFF"
          by (cases r1) auto
        let ?k = "k0\<lparr>sent := sent k0 @ [GetStates]\<rparr>"
        from k0 have "same_telemetry c ?k"
          "use_channel_info ?k = (case a of None \<Rightarrow> use_channel_info c | Some b \<Rightarrow> b)"
          by (simp_all add: same_telemetry_def)
        moreover from upd unfold r1 on
        have "case checked_json (states_response srv) of
                Inl e \<Rightarrow> r = Inl e \<and> c' = ?k
              | Inr data \<Rightarrow> update_status loads data ?k = (r, c')"
          by (auto split: sum.splits)
        ultimately show ?thesis by blast
      qed
    qed
  qed
qed

section \<open>Worked examples\<close>

lemma update_doc_vol:
  assumes "parse_volume v = Inr x"
  shows "async_device_update loads0 (server_online (doc_vol v)) 0 None tv_on
     = (Inr (), tv_on\<lparr>prev_state := STATE_ON, muted := True, volume := x,
          source_list := JArr [], source_list_map := JArr [],
          source := JStr ''HDMI1'', channel := JStr '''', channel_name := JStr '''',
          sound_mode_list := JArr [], sound_mode_list_map := JArr [],
          picture_mode_list := JArr [], picture_mode_list_map := JArr [],
          throttle_last := Some 0,
          sent := [GetHealth, PostCommand (command COMMAND_REFRESH []), GetStates]\<rparr>)"
  using assms
  by (simp add: async_device_update_def async_device_health_def health_result_def
      update_status_def update_source_channel_def on_ok_def get_value_def load_json_list_def
      canonical_source_def get_source_list_from_map_def send_defs
      tv_on_def tv0_def init_def server_online_def http_ok_def state_doc_def doc_vol_def
      upper_def upper_char_def DIGITAL_TV_def)

lemma update_doc_empty:
  "async_device_update loads0 (server_online (state_doc [])) 0 None tv_on
     = (Inr (), tv_on\<lparr>prev_state := STATE_ON, muted := False, volume := 0,
          source_list := JArr [], source_list_map := JArr [],
          source := JStr '''', channel := JStr '''', channel_name := JStr '''',
          sound_mode_list := JArr [], sound_mode_list_map := JArr [],
          picture_mode_list := JArr [], picture_mode_list_map := JArr [],
          throttle_last := Some 0,
          sent := [GetHealth, PostCommand (command COMMAND_REFRESH []), GetStates]\<rparr>)"
  by (simp add: async_device_update_def async_device_health_def health_result_def
      update_status_def update_source_channel_def on_ok_def get_value_def load_json_list_def
      canonical_source_def get_source_list_from_map_def send_defs parse_volume_examples
      tv_on_def tv0_def init_def server_online_def http_ok_def state_doc_def)

lemma reported_doc_vol: "reported (doc_vol v) ''volume'' (JNum 0) = Inr v"
  by (simp add: reported_def get_value_def doc_vol_def state_doc_def)

lemma states_of_server_online: "checked_json (states_response (server_online d)) = Inr d"
  by (simp add: checked_json_def server_online_def http_ok_def)

section \<open>A failing health check\<close>

text \<open>
  Claim C4. When the health check of \<^verbatim>\<open>async_device_update\<close> raises a timeout, a
  connection error or an HTTP-status error, the update returns normally, the cached
  state is \<open>STATE_UNKNOWN\<close>, and nothing else of the cache changes: the result is the
  client with the configuration flag set from the argument, the previous state saved,
  the state degraded and the health request recorded.
\<close>

theorem health_failure_degrades_to_unknown:
  assumes "device_id c \<noteq> []" and "health_result srv = Inl e" and "caught e"
  shows "async_device_update loads srv now arg c =
           (Inr (), c\<lparr>use_channel_info := (case arg of None \<Rightarrow> use_channel_info c | Some b \<Rightarrow> b),
                       prev_state := state c, state := STATE_UNKNOWN,
                       sent := sent c @ [GetHealth]\<rparr>)"
  using assms
  by (cases arg) (simp_all add: async_device_update_def async_device_health_def Let_def)

theorem health_failure_degrades_to_unknown_witness:
  "device_id tv_on \<noteq> [] \<and> health_result server_down = Inl ClientConnectionError
   \<and> caught ClientConnectionError
   \<and> async_device_update loads0 server_down 0 None tv_on =
       (Inr (), tv_on\<lparr>prev_state := STATE_ON, state := STATE_UNKNOWN, sent := [GetHealth]\<rparr>)
   \<and> health_result server_failing = Inl ClientResponseError \<and> caught ClientResponseError
   \<and> async_device_update loads0 server_failing 0 (Some False) tv_on =
       (Inr (), tv_on\<lparr>use_channel_info := False, prev_state := STATE_ON,
                        state := STATE_UNKNOWN, sent := [GetHealth]\<rparr>)
   \<and> health_result server_slow = Inl AsyncTimeoutError \<and> caught AsyncTimeoutError
   \<and> async_device_update loads0 server_slow 0 None tv_on =
       (Inr (), tv_on\<lparr>prev_state := STATE_ON, state := STATE_UNKNOWN, sent := [GetHealth]\<rparr>)"
proof -
  have d: "device_id tv_on \<noteq> []" by (simp add: tv_on_def tv0_def init_def)
  have h1: "health_result server_down = Inl ClientConnectionError"
    by (simp add: health_result_def server_down_def checked_json_def)
  have h2: "health_result server_failing = Inl ClientResponseError"
    by (simp add: health_result_def server_failing_def server_online_def http_status_def
        checked_json_def)
  have h3: "health_result server_slow = Inl AsyncTimeoutError"
    by (simp add: health_result_def server_slow_def server_online_def checked_json_def)
  have k: "caught ClientConnectionError" "caught ClientResponseError" "caught AsyncTimeoutError"
    by (simp_all add: caught_def)
  show ?thesis
    using d h1 h2 h3 k
      health_failure_degrades_to_unknown [OF d h1 k(1), of loads0 0 None]
      health_failure_degrades_to_unknown [OF d h2 k(2), of loads0 0 "Some False"]
      health_failure_degrades_to_unknown [OF d h3 k(3), of loads0 0 None]
    by (simp add: tv_on_def tv0_def init_def)
qed

section \<open>Selecting the source that is already cached\<close>

text \<open>
  Claim C10. \<^verbatim>\<open>async_select_source\<close> with the source that is already cached leaves the
  cached channel and channel name as they were and does not touch the override latch
  (\<open>is_forced_val\<close>, \<open>forced_count\<close>); the channel is cleared and the latch armed only
  when the requested source differs. With a device id configured the set-source command
  is posted first in both cases.
\<close>

theorem select_same_source_keeps_channel:
  assumes "async_select_source srv now s c = (r, c')"
  shows "(source c = JStr s \<longrightarrow>
            channel c' = channel c \<and> channel_name c' = channel_name c
            \<and> is_forced_val c' = is_forced_val c \<and> forced_count c' = forced_count c)
         \<and> (source c \<noteq> JStr s \<longrightarrow>
            channel c' = JStr '''' \<and> channel_name c' = JStr ''''
            \<and> is_forced_val c' \<and> forced_count c' = 0)
         \<and> (device_id c \<noteq> [] \<longrightarrow>
            (\<exists>rest. issued c c' = PostCommand (command COMMAND_SET_SOURCE [JStr s]) # rest))"
proof -
  from assms
  have sent: "p_async_send_command srv now (Some (command COMMAND_SET_SOURCE [JStr s]))
                (set_source s c) = (r, c')"
    by (simp add: async_select_source_def)
  from p_async_send_command_frame [OF this]
  have frame: "c'\<lparr>state := state (set_source s c), throttle_last := throttle_last (set_source s c),
                   sent := sent (set_source s c)\<rparr> = set_source s c" .
  have same: "source c = JStr s \<longrightarrow>
            channel c' = channel c \<and> channel_name c' = channel_name c
            \<and> is_forced_val c' = is_forced_val c \<and> forced_count c' = forced_count c"
    using frame by (cases c'; cases c; auto simp: set_source_def)
  have differs: "source c \<noteq> JStr s \<longrightarrow>
            channel c' = JStr '''' \<and> channel_name c' = JStr ''''
            \<and> is_forced_val c' \<and> forced_count c' = 0"
    using frame by (cases c'; cases c; auto simp: set_source_def)
  have posts: "device_id c \<noteq> [] \<longrightarrow>
            (\<exists>rest. issued c c' = PostCommand (command COMMAND_SET_SOURCE [JStr s]) # rest)"
    using sent
    by (auto simp: issued_def set_source_def p_async_send_command_def
        device_refresh_def device_refresh_body_def Let_def split: if_splits sum.splits)
  from same differs posts show ?thesis by blast
qed

theorem select_same_source_keeps_channel_witness:
  "source tv_on = JStr ''HDMI2'' \<and> device_id tv_on \<noteq> []
   \<and> channel (snd (async_select_source (server_online JNull) 0 ''HDMI2'' tv_on)) = JStr ''5''
   \<and> channel_name (snd (async_select_source (server_online JNull) 0 ''HDMI2'' tv_on)) = JStr ''News''
   \<and> is_forced_val (snd (async_select_source (server_online JNull) 0 ''HDMI2'' tv_on)) = False
   \<and> issued tv_on (snd (async_select_source (server_online JNull) 0 ''HDMI2'' tv_on)) =
       [PostCommand (command COMMAND_SET_SOURCE [JStr ''HDMI2'']),
        PostCommand (command COMMAND_REFRESH [])]"
  using select_same_source_keeps_channel
    [of "server_online JNull" 0 "''HDMI2''" tv_on
        "fst (async_select_source (server_online JNull) 0 ''HDMI2'' tv_on)"
        "snd (async_select_source (server_online JNull) 0 ''HDMI2'' tv_on)"]
  by (simp add: async_select_source_def set_source_def send_defs example_defs issued_def)

section \<open>Volume\<close>

text \<open>
  Claim C2. Whenever \<^verbatim>\<open>async_device_update\<close> has fetched a state document, the cached
  volume afterwards is \<^verbatim>\<open>int(v) / 100\<close> if the document reports a string \<open>v\<close> of ASCII
  digits whose value is at most 100 (each of "0" to "100", also written with leading
  zeros, up to the number of digits \<^verbatim>\<open>int\<close> accepts), and 0 if it reports a string
  that \<^verbatim>\<open>isdigit\<close> rejects or reports nothing (the default 0 of the lookup). This holds
  even when a later field of the document makes the update raise.
\<close>

theorem update_volume_from_document:
  assumes upd: "async_device_update loads srv now a c = (r, c')"
    and fetched: "GetStates \<in> set (issued c c')"
    and doc: "checked_json (states_response srv) = Inr data"
  shows "(\<forall>v. reported data ''volume'' (JNum 0) = Inr (JStr v) \<and> ascii_digits v
              \<and> length v \<le> max_str_digits \<and> int_of_digits v \<le> 100 \<longrightarrow>
            volume c' = of_int (int_of_digits v) / 100)
       \<and> (\<forall>v. reported data ''volume'' (JNum 0) = Inr (JStr v) \<and> \<not> isdigit v \<longrightarrow> volume c' = 0)
       \<and> (reported data ''volume'' (JNum 0) = Inr (JNum 0) \<longrightarrow> volume c' = 0)"
proof -
  from update_cases [OF upd] fetched doc
  obtain k where k: "update_status loads data k = (r, c')" by auto
  have p: "\<And>v x. reported data ''volume'' (JNum 0) = Inr v \<Longrightarrow> parse_volume v = Inr x
             \<Longrightarrow> volume c' = x"
    using update_status_volume [OF k] by blast
  have digits: "\<And>v. ascii_digits v \<Longrightarrow> length v \<le> max_str_digits \<Longrightarrow> int_of_digits v \<le> 100
             \<Longrightarrow> parse_volume (JStr v) = Inr (of_int (int_of_digits v) / 100)"
    by (rule parse_volume_digits) simp_all
  from p digits parse_volume_other show ?thesis by blast
qed

theorem update_volume_from_document_witness:
  "GetStates \<in> set (issued tv_on
      (snd (async_device_update loads0 (server_online (doc_vol (JStr ''42''))) 0 None tv_on)))
   \<and> checked_json (states_response (server_online (doc_vol (JStr ''42'')))) = Inr (doc_vol (JStr ''42''))
   \<and> reported (doc_vol (JStr ''42'')) ''volume'' (JNum 0) = Inr (JStr ''42'')
   \<and> ascii_digits ''42'' \<and> length ''42'' \<le> max_str_digits \<and> int_of_digits ''42'' \<le> 100
   \<and> volume (snd (async_device_update loads0 (server_online (doc_vol (JStr ''42''))) 0 None tv_on))
       = of_int (int_of_digits ''42'') / 100
   \<and> of_int (int_of_digits ''42'') / 100 = (21 / 50 :: rat)
   \<and> reported (doc_vol (JStr ''loud'')) ''volume'' (JNum 0) = Inr (JStr ''loud'')
   \<and> \<not> isdigit ''loud''
   \<and> volume (snd (async_device_update loads0 (server_online (doc_vol (JStr ''loud''))) 0 None tv_on)) = 0
   \<and> reported (state_doc []) ''volume'' (JNum 0) = Inr (JNum 0)
   \<and> volume (snd (async_device_update loads0 (server_online (state_doc [])) 0 None tv_on)) = 0"
proof -
  note r42 = update_doc_vol [OF parse_volume_examples(1)]
  note rloud = update_doc_vol [OF parse_volume_examples(3)]
  have sent0: "sent tv_on = []" by (simp add: tv_on_def tv0_def init_def)
  have digits: "ascii_digits ''42''" "length ''42'' \<le> max_str_digits"
    "int_of_digits ''42'' \<le> 100" "\<not> isdigit ''loud''"
    "of_int (int_of_digits ''42'') / 100 = (21 / 50 :: rat)"
    by (simp_all add: string_defs max_str_digits_def)
  have absent: "reported (state_doc []) ''volume'' (JNum 0) = Inr (JNum 0)"
    by (simp add: reported_def get_value_def state_doc_def)
  from update_volume_from_document [OF r42 _ states_of_server_online]
    update_volume_from_document [OF rloud _ states_of_server_online]
    update_volume_from_document [OF update_doc_empty _ states_of_server_online]
  show ?thesis
    by (simp add: r42 rloud update_doc_empty issued_def sent0 reported_doc_vol
        states_of_server_online digits absent max_str_digits_def)
qed

lemma perform_volume:
  assumes "perform loads srv now act c = (r, c')"
  shows "volume c' = volume c
         \<or> (\<exists>data v. checked_json (states_response srv) = Inr data
                \<and> reported data ''volume'' (JNum 0) = Inr v
                \<and> parse_volume v = Inr (volume c'))"
proof (cases act)
  case (Update a)
  with assms have upd: "async_device_update loads srv now a c = (r, c')" by simp
  from update_cases [OF upd] show ?thesis
  proof
    assume "GetStates \<notin> set (issued c c') \<and> same_telemetry c c'"
    then show ?thesis by (simp add: same_telemetry_def)
  next
    assume "\<exists>k. same_telemetry c k
              \<and> use_channel_info k = (case a of None \<Rightarrow> use_channel_info c | Some b \<Rightarrow> b)
              \<and> (case checked_json (states_response srv) of
                    Inl e \<Rightarrow> r = Inl e \<and> c' = k
                  | Inr data \<Rightarrow> update_status loads data k = (r, c'))"
    then obtain k where k: "volume k = volume c"
      and cs: "case checked_json (states_response srv) of
                    Inl e \<Rightarrow> r = Inl e \<and> c' = k
                  | Inr data \<Rightarrow> update_status loads data k = (r, c')"
      by (auto simp: same_telemetry_def)
    show ?thesis
    proof (cases "checked_json (states_response srv)")
      case (Inl e)
      with cs k show ?thesis by simp
    next
      case (Inr data)
      with cs have "update_status loads data k = (r, c')" by simp
      from update_status_volume_cases [OF this] k Inr show ?thesis by auto
    qed
  qed
next
  case (Command cmd)
  with assms run_command_effect [of srv now cmd c r c'] show ?thesis
    by (simp add: send_effect_def command_frame_def)
next
  case (SetApplication app_id)
  with assms show ?thesis by (auto simp: set_application_def)
qed

text \<open>
  Claim C3, as stated, fails: the constructor sets the cached volume to 10, and an update
  divides whatever digit string the document reports by 100 without clamping, so a
  reported "150" leaves 3/2.
\<close>

theorem volume_unit_interval_counterexample:
  "volume tv0 = 10
   \<and> volume (snd (async_device_update loads0 (server_online (doc_vol (JStr ''150''))) 0 None tv0))
       = 3 / 2"
  by (simp add: update_defs send_defs example_defs string_defs)

text \<open>
  Claim C3, amended. Every operation of the client keeps a cached volume that lies in
  [0,1] within [0,1], provided the state document it may fetch reports a volume that is
  absent, not a digit string, or a digit string of value at most 100.
\<close>

theorem volume_stays_in_unit_interval:
  assumes step: "perform loads srv now act c = (r, c')"
    and inv: "0 \<le> volume c \<and> volume c \<le> 1"
    and doc: "\<forall>data s. checked_json (states_response srv) = Inr data
                \<and> reported data ''volume'' (JNum 0) = Inr (JStr s) \<and> ascii_digits s
              \<longrightarrow> int_of_digits s \<le> 100"
  shows "0 \<le> volume c' \<and> volume c' \<le> 1"
  using perform_volume [OF step]
proof
  assume "volume c' = volume c"
  with inv show ?thesis by simp
next
  assume "\<exists>data v. checked_json (states_response srv) = Inr data
                \<and> reported data ''volume'' (JNum 0) = Inr v
                \<and> parse_volume v = Inr (volume c')"
  then obtain data v where d: "checked_json (states_response srv) = Inr data"
    "reported data ''volume'' (JNum 0) = Inr v" and p: "parse_volume v = Inr (volume c')"
    by blast
  from d doc have "\<forall>s. v = JStr s \<and> ascii_digits s \<longrightarrow> int_of_digits s \<le> 100" by blast
  from parse_volume_range [OF p this] show ?thesis .
qed

theorem volume_stays_in_unit_interval_witness:
  "0 \<le> volume tv_on \<and> volume tv_on \<le> 1
   \<and> reported (doc_vol (JStr ''100'')) ''volume'' (JNum 0) = Inr (JStr ''100'')
   \<and> int_of_digits ''100'' \<le> 100
   \<and> volume (snd (perform loads0 (server_online (doc_vol (JStr ''100''))) 0 (Update None) tv_on)) = 1"
proof -
  let ?srv = "server_online (doc_vol (JStr ''100''))"
  note r100 = update_doc_vol [OF parse_volume_examples(2)]
  have inv: "0 \<le> volume tv_on \<and> volume tv_on \<le> 1"
    by (simp add: tv_on_def tv0_def init_def)
  have dig: "int_of_digits ''100'' \<le> 100" by (simp add: int_of_digits_def)
  have doc: "\<forall>data s. checked_json (states_response ?srv) = Inr data
                \<and> reported data ''volume'' (JNum 0) = Inr (JStr s) \<and> ascii_digits s
              \<longrightarrow> int_of_digits s \<le> 100"
    using dig by (auto simp: states_of_server_online reported_doc_vol)
  have step: "perform loads0 ?srv 0 (Update None) tv_on
      = (fst (perform loads0 ?srv 0 (Update None) tv_on), snd (perform loads0 ?srv 0 (Update None) tv_on))"
    by simp
  from volume_stays_in_unit_interval [OF step inv doc] inv dig show ?thesis
    by (simp add: r100 reported_doc_vol)
qed

section \<open>What follows a command\<close>

text \<open>
  Claim C8, as stated, fails: a command method ends with \<^verbatim>\<open>_device_refresh\<close>, the
  rate-limited refresh trigger, not with \<^verbatim>\<open>async_device_update\<close>. Turning the television
  off against a server whose state document reports volume "42" posts the command and
  the refresh trigger, requests neither health nor states, and leaves the cached volume
  at 1/4.
\<close>

theorem command_refetch_counterexample:
  "checked_json (command_response (server_online (doc_vol (JStr ''42'')))) = Inr (JObj [])
   \<and> reported (doc_vol (JStr ''42'')) ''volume'' (JNum 0) = Inr (JStr ''42'')
   \<and> async_turn_off (server_online (doc_vol (JStr ''42''))) 0 tv_on
       = (Inr (), tv_on\<lparr>throttle_last := Some 0,
                        sent := [PostCommand (command COMMAND_POWER_OFF []),
                                 PostCommand (command COMMAND_REFRESH [])]\<rparr>)
   \<and> volume tv_on = 1 / 4"
  by (simp add: async_turn_off_def send_defs example_defs reported_def get_value_def)

text \<open>
  Claim C8, amended. Every public command method issues no health or state request. Once
  its command POST has been issued and answered, it calls the rate-limited refresh
  trigger, which posts the refresh command exactly when the throttle gate is open and
  channel info is in use. The cached volume, mute flag, mode lists and maps, source list
  and map and previous state are left as they were.
\<close>

theorem command_triggers_refresh_only:
  assumes "run_command srv now cmd c = (r, c')"
  shows "GetStates \<notin> set (issued c c') \<and> GetHealth \<notin> set (issued c c')
         \<and> (\<forall>j. issued c c' \<noteq> [] \<and> checked_json (command_response srv) = Inr j \<longrightarrow>
              (if throttle_open now (throttle_last c) \<and> use_channel_info c
               then \<exists>p. issued c c' = [PostCommand p, PostCommand (command COMMAND_REFRESH [])]
               else \<exists>p. issued c c' = [PostCommand p]))
         \<and> volume c' = volume c \<and> muted c' = muted c
         \<and> sound_mode_list c' = sound_mode_list c
         \<and> sound_mode_list_map c' = sound_mode_list_map c
         \<and> picture_mode_list c' = picture_mode_list c
         \<and> picture_mode_list_map c' = picture_mode_list_map c
         \<and> source_list c' = source_list c \<and> source_list_map c' = source_list_map c
         \<and> prev_state c' = prev_state c"
proof -
  from run_command_effect [OF assms] have e: "send_effect srv now c c'" .
  then have "GetStates \<notin> set (issued c c') \<and> GetHealth \<notin> set (issued c c')"
    by (auto simp: send_effect_def)
  with e show ?thesis
    unfolding send_effect_def command_frame_def by blast
qed

theorem command_triggers_refresh_only_witness:
  "throttle_open 0 (throttle_last tv_on) \<and> use_channel_info tv_on
   \<and> checked_json (command_response (server_online (doc_vol (JStr ''42'')))) = Inr (JObj [])
   \<and> issued tv_on (snd (run_command (server_online (doc_vol (JStr ''42''))) 0 TurnOff tv_on))
       = [PostCommand (command COMMAND_POWER_OFF []), PostCommand (command COMMAND_REFRESH [])]
   \<and> volume (snd (run_command (server_online (doc_vol (JStr ''42''))) 0 TurnOff tv_on))
       = volume tv_on"
  using command_triggers_refresh_only
    [of "server_online (doc_vol (JStr ''42''))" 0 TurnOff tv_on
        "fst (run_command (server_online (doc_vol (JStr ''42''))) 0 TurnOff tv_on)"
        "snd (run_command (server_online (doc_vol (JStr ''42''))) 0 TurnOff tv_on)"]
  by (simp add: async_turn_off_def send_defs example_defs issued_def)

section \<open>Mode setters\<close>

lemma find_mode_id_no_match:
  "list_all is_dict entries \<Longrightarrow>
   \<forall>e\<in>set entries. dict_get e ''name'' JNull \<noteq> Inr (JStr mode) \<Longrightarrow>
   find_mode_id entries mode = Inr JNull"
proof (induction entries)
  case Nil
  then show ?case by simp
next
  case (Cons e es)
  from Cons.prems obtain kvs where e: "e = JObj kvs" by (cases e) auto
  with Cons show ?case by (auto split: option.splits)
qed

text \<open>
  What holds of the two mode setters: they return at once, with the client untouched,
  while the cached state is not \<open>STATE_ON\<close>; and with the state \<open>STATE_ON\<close> and a list-map
  that is a list of dicts in which no entry's name equals the requested mode exactly,
  they raise \<^verbatim>\<open>InvalidSmartThingsSoundMode\<close>, respectively \<^verbatim>\<open>InvalidSmartThingsPictureMode\<close>,
  again with the client untouched.
\<close>

lemma set_mode_guards:
  "(state c \<noteq> STATE_ON \<longrightarrow>
      async_set_sound_mode srv now mode c = (Inr (), c)
      \<and> async_set_picture_mode srv now mode c = (Inr (), c))
   \<and> (state c = STATE_ON \<and> sound_mode_list_map c = JArr entries \<and> list_all is_dict entries
        \<and> (\<forall>e\<in>set entries. dict_get e ''name'' JNull \<noteq> Inr (JStr mode)) \<longrightarrow>
      async_set_sound_mode srv now mode c = (Inl InvalidSmartThingsSoundMode, c))
   \<and> (state c = STATE_ON \<and> picture_mode_list_map c = JArr entries \<and> list_all is_dict entries
        \<and> (\<forall>e\<in>set entries. dict_get e ''name'' JNull \<noteq> Inr (JStr mode)) \<longrightarrow>
      async_set_picture_mode srv now mode c = (Inl InvalidSmartThingsPictureMode, c))"
  by (simp add: async_set_sound_mode_def async_set_picture_mode_def find_mode_id_no_match)

lemma set_mode_guards_examples:
  "async_set_sound_mode (server_online JNull) 0 ''Standard'' tv0 = (Inr (), tv0)"
  "async_set_picture_mode (server_online JNull) 0 ''Movie'' tv0 = (Inr (), tv0)"
  "async_set_sound_mode (server_online JNull) 0 ''standard'' tv_modes
     = (Inl InvalidSmartThingsSoundMode, tv_modes)"
  "async_set_picture_mode (server_online JNull) 0 ''NonexistentMode'' tv_modes
     = (Inl InvalidSmartThingsPictureMode, tv_modes)"
  using set_mode_guards [of tv0 "server_online JNull" 0 "''Standard''" "[]"]
    set_mode_guards [of tv0 "server_online JNull" 0 "''Movie''" "[]"]
    set_mode_guards [of tv_modes "server_online JNull" 0 "''standard''"
      "[JObj [(''id'', JStr ''1''), (''name'', JStr ''Standard'')]]"]
    set_mode_guards [of tv_modes "server_online JNull" 0 "''NonexistentMode''"
      "[JObj [(''id'', JStr ''7''), (''name'', JStr ''Movie'')]]"]
  by (simp_all add: example_defs)

text \<open>
  Claim C5 does not hold of the code in a state the client can reach. The constructor
  leaves both list-maps \<^verbatim>\<open>None\<close>, and an update whose health check answers ONLINE sets
  the state to \<open>STATE_ON\<close> before the state document is fetched; when that fetch fails
  (here with HTTP 500) the error propagates and the maps stay \<^verbatim>\<open>None\<close>. In that state
  \<^verbatim>\<open>async_set_sound_mode\<close> and \<^verbatim>\<open>async_set_picture_mode\<close> raise TypeError from the
  \<^verbatim>\<open>for\<close> loop over \<^verbatim>\<open>None\<close>, not the invalid-mode error the lookup was written to
  raise; no request is issued.
\<close>

theorem set_mode_unloaded_map_type_error:
  "async_device_update loads0 server_states_failing 0 None tv0
     = (Inl ClientResponseError, tv_unloaded)
   \<and> state tv_unloaded = STATE_ON
   \<and> sound_mode_list_map tv_unloaded = JNull \<and> picture_mode_list_map tv_unloaded = JNull
   \<and> async_set_sound_mode (server_online JNull) 1 ''Standard'' tv_unloaded
       = (Inl TypeError, tv_unloaded)
   \<and> async_set_picture_mode (server_online JNull) 1 ''Movie'' tv_unloaded
       = (Inl TypeError, tv_unloaded)"
  by (simp add: async_device_update_def async_device_health_def health_result_def send_defs
      async_set_sound_mode_def async_set_picture_mode_def
      server_states_failing_def tv_unloaded_def server_online_def http_ok_def http_status_def
      tv0_def init_def)

section \<open>Source names\<close>

text \<open>
  Claim C6 does not hold of the code. \<^verbatim>\<open>get_source_name\<close> replaces the argument
  "digitalTv" by the lower-case literal "dtv" and then compares the map's ids with
  \<^verbatim>\<open>==\<close>: for a map whose entry has the id "DTV" it finds nothing and returns the empty
  string, while \<^verbatim>\<open>_get_source_list_from_map\<close> on the same map matches the id in any
  capitalisation and lists "digitalTv".
\<close>

theorem get_source_name_misses_upper_case_id:
  "get_source_name tv_upper_dtv ''digitalTv'' = Inr (JStr '''')
   \<and> get_source_list_from_map tv_upper_dtv = Inr [''digitalTv'']"
  by (simp add: get_source_name_def get_source_list_from_map_def example_defs string_defs)

section \<open>The derived source list\<close>

lemma source_list_loop_ok:
  "list_all entry_ok entries \<Longrightarrow>
   source_list_loop entries acc = Inr (acc @ map dtv_label (entry_ids entries))"
proof (induction entries arbitrary: acc)
  case Nil
  then show ?case by simp
next
  case (Cons e es)
  then show ?case
    by (auto simp: entry_ok_def dtv_label_def split: sum.splits json.splits)
qed

lemma entry_ids_mem:
  "e \<in> set entries \<Longrightarrow> dict_get e ''id'' JNull = Inr (JStr s) \<Longrightarrow> s \<noteq> [] \<Longrightarrow>
   s \<in> set (entry_ids entries)"
  by (induction entries) (auto split: sum.splits json.splits)

lemma upper_digital_tv: "upper DIGITAL_TV \<noteq> ''DTV''"
  by (simp add: string_defs)

lemma upper_nonempty: "upper s = ''DTV'' \<Longrightarrow> s \<noteq> []"
  by (auto simp: upper_def)

lemma dtv_label_upper: "upper (dtv_label t) \<noteq> ''DTV''"
  using upper_digital_tv by (simp add: dtv_label_def)

lemma get_source_list_from_map_ok:
  assumes "source_list_map k = JArr entries" and "list_all entry_ok entries"
  shows "get_source_list_from_map k = Inr (map dtv_label (entry_ids entries))"
  using assms source_list_loop_ok [of entries "[]"]
  by (cases entries) (simp_all add: get_source_list_from_map_def)

lemma perform_source_list:
  assumes "perform loads srv now act c = (r, c')"
  shows "source_list c' = source_list c
         \<or> (\<exists>ids. get_source_list_from_map c' = Inr ids \<and> source_list c' = JArr (map JStr ids))"
proof (cases act)
  case (Update a)
  with assms have upd: "async_device_update loads srv now a c = (r, c')" by simp
  from update_cases [OF upd] show ?thesis
  proof
    assume "GetStates \<notin> set (issued c c') \<and> same_telemetry c c'"
    then show ?thesis by (simp add: same_telemetry_def)
  next
    assume "\<exists>k. same_telemetry c k
              \<and> use_channel_info k = (case a of None \<Rightarrow> use_channel_info c | Some b \<Rightarrow> b)
              \<and> (case checked_json (states_response srv) of
                    Inl e \<Rightarrow> r = Inl e \<and> c' = k
                  | Inr data \<Rightarrow> update_status loads data k = (r, c'))"
    then obtain k where k: "source_list k = source_list c"
      and cs: "case checked_json (states_response srv) of
                    Inl e \<Rightarrow> r = Inl e \<and> c' = k
                  | Inr data \<Rightarrow> update_status loads data k = (r, c')"
      by (auto simp: same_telemetry_def)
    show ?thesis
    proof (cases "checked_json (states_response srv)")
      case (Inl e)
      with cs k show ?thesis by simp
    next
      case (Inr data)
      with cs have "update_status loads data k = (r, c')" by simp
      from update_status_source_list [OF this] k show ?thesis by auto
    qed
  qed
next
  case (Command cmd)
  with assms run_command_effect [of srv now cmd c r c'] show ?thesis
    by (simp add: send_effect_def command_frame_def)
next
  case (SetApplication app_id)
  with assms show ?thesis by (auto simp: set_application_def)
qed

text \<open>
  Claim C7, as stated, fails on two kinds of map. An entry whose id is the empty string
  is skipped by \<^verbatim>\<open>if source_id := map_value.get("id")\<close>, so that id is not in the derived
  list; and an entry whose id is a number makes the derivation raise, so no list is
  derived at all.
\<close>

theorem source_list_skips_counterexample:
  "get_source_list_from_map tv_blank_id = Inr [''digitalTv'']
   \<and> get_source_list_from_map tv_numeric_id = Inl AttributeError"
  by (simp add: get_source_list_from_map_def tv_blank_id_def tv_numeric_id_def string_defs)

text \<open>
  Claim C7, amended. An update that fetches a state document and returns normally
  caches the decoding of the document's \<^verbatim>\<open>supportedInputSourcesMap\<close> as the source map and
  the derivation of that map as the source list; and after any operation the cached
  list is either what it was or the derivation of the map now cached, never anything
  else. For a map that is a list of dicts whose ids are strings or missing, the
  derivation is the list of the non-empty ids with the substitution applied: for an
  entry whose id is "dtv" in any capitalisation the list contains "digitalTv" and not
  that id, and every other non-empty id is in the list unchanged.
\<close>

theorem source_list_derived_from_map:
  "(async_device_update loads srv now a c = (Inr (), c') \<and> GetStates \<in> set (issued c c') \<longrightarrow>
      (\<exists>ids data dev. get_source_list_from_map c' = Inr ids
         \<and> source_list c' = JArr (map JStr ids)
         \<and> checked_json (states_response srv) = Inr data
         \<and> dict_get data ''main'' (JObj []) = Inr dev
         \<and> load_json_list loads dev ''supportedInputSourcesMap'' = Inr (source_list_map c')))
   \<and> (perform loads1 srv1 now1 act c1 = (r1, c1') \<longrightarrow>
      source_list c1' = source_list c1
      \<or> (\<exists>ids. get_source_list_from_map c1' = Inr ids \<and> source_list c1' = JArr (map JStr ids)))
   \<and> (source_list_map k = JArr entries \<and> list_all entry_ok entries \<longrightarrow>
        (\<exists>ids. get_source_list_from_map k = Inr ids
           \<and> ids = map dtv_label (entry_ids entries)
           \<and> (\<forall>e\<in>set entries. \<forall>s. dict_get e ''id'' JNull = Inr (JStr s) \<longrightarrow>
                 (upper s = ''DTV'' \<longrightarrow> DIGITAL_TV \<in> set ids \<and> s \<notin> set ids)
               \<and> (upper s \<noteq> ''DTV'' \<and> s \<noteq> [] \<longrightarrow> s \<in> set ids))))"
proof -
  have stored: "\<exists>ids data dev. get_source_list_from_map c' = Inr ids
         \<and> source_list c' = JArr (map JStr ids)
         \<and> checked_json (states_response srv) = Inr data
         \<and> dict_get data ''main'' (JObj []) = Inr dev
         \<and> load_json_list loads dev ''supportedInputSourcesMap'' = Inr (source_list_map c')"
    if upd: "async_device_update loads srv now a c = (Inr (), c')"
      and fetched: "GetStates \<in> set (issued c c')"
  proof -
    from update_cases [OF upd] fetched
    obtain k0 where cs: "case checked_json (states_response srv) of
               Inl e \<Rightarrow> Inr () = Inl e \<and> c' = k0
             | Inr data \<Rightarrow> update_status loads data k0 = (Inr (), c')"
      by blast
    from cs obtain data where data: "checked_json (states_response srv) = Inr data"
      and us: "update_status loads data k0 = (Inr (), c')"
      by (cases "checked_json (states_response srv)") auto
    from update_status_sources [OF us] data show ?thesis by blast
  qed
  have a: "perform loads1 srv1 now1 act c1 = (r1, c1') \<longrightarrow>
      source_list c1' = source_list c1
      \<or> (\<exists>ids. get_source_list_from_map c1' = Inr ids \<and> source_list c1' = JArr (map JStr ids))"
    using perform_source_list by blast
  have b: "\<exists>ids. get_source_list_from_map k = Inr ids
           \<and> ids = map dtv_label (entry_ids entries)
           \<and> (\<forall>e\<in>set entries. \<forall>s. dict_get e ''id'' JNull = Inr (JStr s) \<longrightarrow>
                 (upper s = ''DTV'' \<longrightarrow> DIGITAL_TV \<in> set ids \<and> s \<notin> set ids)
               \<and> (upper s \<noteq> ''DTV'' \<and> s \<noteq> [] \<longrightarrow> s \<in> set ids))"
    if m: "source_list_map k = JArr entries" and ok: "list_all entry_ok entries"
  proof -
    let ?ids = "map dtv_label (entry_ids entries)"
    have g: "get_source_list_from_map k = Inr ?ids"
      using get_source_list_from_map_ok [OF m ok] .
    have p: "(upper s = ''DTV'' \<longrightarrow> DIGITAL_TV \<in> set ?ids \<and> s \<notin> set ?ids)
               \<and> (upper s \<noteq> ''DTV'' \<and> s \<noteq> [] \<longrightarrow> s \<in> set ?ids)"
      if e: "e \<in> set entries" and i: "dict_get e ''id'' JNull = Inr (JStr s)" for e s
    proof (cases "upper s = ''DTV''")
      case True
      then have ne: "s \<noteq> []" by (rule upper_nonempty)
      from entry_ids_mem [OF e i ne] True
      have "DIGITAL_TV \<in> set ?ids" by (force simp: dtv_label_def)
      moreover have "s \<notin> set ?ids"
      proof
        assume "s \<in> set ?ids"
        then obtain t where "s = dtv_label t" by auto
        with True dtv_label_upper [of t] show False by simp
      qed
      ultimately show ?thesis using True by simp
    next
      case False
      show ?thesis
      proof (cases "s = []")
        case True
        with False show ?thesis by simp
      next
        case ne: False
        from entry_ids_mem [OF e i ne] False
        have "s \<in> set ?ids" by (force simp: dtv_label_def)
        with False show ?thesis by simp
      qed
    qed
    from g p show ?thesis by blast
  qed
  from stored a b show ?thesis by blast
qed

theorem source_list_derived_from_map_witness:
  "async_device_update loads0 (server_online doc_sources) 0 None tv_on
     = (Inr (), snd (async_device_update loads0 (server_online doc_sources) 0 None tv_on))
   \<and> GetStates \<in> set (issued tv_on
        (snd (async_device_update loads0 (server_online doc_sources) 0 None tv_on)))
   \<and> source_list (snd (async_device_update loads0 (server_online doc_sources) 0 None tv_on))
     = JArr [JStr ''digitalTv'', JStr ''HDMI1'']
   \<and> get_source_list_from_map
        (snd (async_device_update loads0 (server_online doc_sources) 0 None tv_on))
     = Inr [''digitalTv'', ''HDMI1'']
   \<and> source_list_map tv_sources = JArr mixed_entries \<and> list_all entry_ok mixed_entries
   \<and> get_source_list_from_map tv_sources = Inr [''digitalTv'', ''HDMI1'']
   \<and> upper ''Dtv'' = ''DTV''"
proof -
  have run: "async_device_update loads0 (server_online doc_sources) 0 None tv_on
     = (Inr (), tv_on\<lparr>prev_state := STATE_ON, muted := False, volume := 0,
          source_list := JArr [JStr ''digitalTv'', JStr ''HDMI1''],
          source_list_map := JArr [JObj [(''id'', JStr ''dtv''), (''name'', JStr ''TV'')],
                                  JObj [(''id'', JStr ''HDMI1''), (''name'', JStr ''Console'')]],
          source := JStr '''', channel := JStr '''', channel_name := JStr '''',
          sound_mode_list := JArr [], sound_mode_list_map := JArr [],
          picture_mode_list := JArr [], picture_mode_list_map := JArr [],
          throttle_last := Some 0,
          sent := [GetHealth, PostCommand (command COMMAND_REFRESH []), GetStates]\<rparr>)"
    by (simp add: update_defs send_defs example_defs string_defs)
  have m: "source_list_map tv_sources = JArr mixed_entries" by (simp add: tv_sources_def)
  have ok: "list_all entry_ok mixed_entries" by (simp add: mixed_entries_def entry_ok_def)
  have ids: "map dtv_label (entry_ids mixed_entries) = [''digitalTv'', ''HDMI1'']"
    by (simp add: mixed_entries_def dtv_label_def string_defs)
  have up: "upper ''Dtv'' = ''DTV''" by (simp add: string_defs)
  have sent0: "sent tv_on = []" by (simp add: tv_on_def tv0_def init_def)
  from source_list_derived_from_map
    [of loads0 "server_online doc_sources" 0 None tv_on
        "snd (async_device_update loads0 (server_online doc_sources) 0 None tv_on)"
        loads0 "server_online doc_sources" 0 "Update None" tv_on "Inr ()"
        "snd (async_device_update loads0 (server_online doc_sources) 0 None tv_on)"
        tv_sources mixed_entries]
    m ok up
  show ?thesis
    by (simp add: run ids issued_def sent0 get_source_list_from_map_def mixed_entries_def
        tv_sources_def string_defs)
qed

section \<open>Rate limit of the refresh trigger\<close>

lemma refresh_count_simps [simp]:
  "refresh_count [] = 0"
  "refresh_count (x # xs) =
     (if x = PostCommand (command COMMAND_REFRESH []) then 1 else 0) + refresh_count xs"
  "refresh_count (xs @ ys) = refresh_count xs + refresh_count ys"
  by (simp_all add: refresh_count_def)

lemma device_refresh_trace:
  assumes "device_refresh srv t c = (r, c')"
  shows "(sent c' = sent c \<and> (throttle_last c' = throttle_last c \<or> throttle_last c' = Some t))
       \<or> (sent c' = sent c @ [PostCommand (command COMMAND_REFRESH [])]
           \<and> throttle_last c' = Some t \<and> throttle_open t (throttle_last c))"
  using assms
  by (auto simp: device_refresh_def device_refresh_body_def Let_def split: if_splits sum.splits)

lemma update_trace:
  assumes upd: "async_device_update loads srv t a c = (r, c')"
  shows "trace_ok t c c'"
proof (cases "device_id c = []")
  case True
  with upd have "c' = c" by (simp add: async_device_update_def)
  then show ?thesis by (simp add: trace_ok_def)
next
  case dev: False
  define c1 where "c1 = (case a of None \<Rightarrow> c | Some b \<Rightarrow> c\<lparr>use_channel_info := b\<rparr>)
                          \<lparr>prev_state := state c, sent := sent c @ [GetHealth]\<rparr>"
  have c1: "sent c1 = sent c @ [GetHealth]" "throttle_last c1 = throttle_last c"
    by (cases a; simp add: c1_def)+
  have base: "trace_ok t c (c1\<lparr>state := st\<rparr>)" "trace_ok t c c1" for st
    using c1 by (simp_all add: trace_ok_def)
  show ?thesis
  proof (cases "health_result srv")
    case (Inl e)
    with upd dev have "c' = c1\<lparr>state := STATE_UNKNOWN\<rparr> \<or> c' = c1"
      by (cases a; cases "caught e")
        (simp_all add: async_device_update_def async_device_health_def c1_def Let_def)
    with base show ?thesis by auto
  next
    case (Inr online)
    show ?thesis
    proof (cases online)
      case False
      with upd dev Inr have "c' = c1\<lparr>state := STATE_OFF\<rparr>"
        by (cases a) (auto simp: async_device_update_def async_device_health_def c1_def Let_def)
      with base show ?thesis by simp
    next
      case True
      obtain r1 k0 where dr: "device_refresh srv t (c1\<lparr>state := STATE_ON\<rparr>) = (r1, k0)"
        by fastforce
      from device_refresh_trace [OF dr] c1
      have k0: "trace_ok t c k0"
        by (auto simp: trace_ok_def)
      have k1: "trace_ok t c (k0\<lparr>sent := sent k0 @ [GetStates]\<rparr>)"
        using k0 by (auto simp: trace_ok_def)
      have unfold: "async_device_update loads srv t a c =
          (case r1 of
             Inl e \<Rightarrow> (Inl e, k0)
           | Inr u \<Rightarrow>
               if state k0 = STATE_OFF then (Inr (), k0)
               else (case checked_json (states_response srv) of
                       Inl e \<Rightarrow> (Inl e, k0\<lparr>sent := sent k0 @ [GetStates]\<rparr>)
                     | Inr data \<Rightarrow> update_status loads data (k0\<lparr>sent := sent k0 @ [GetStates]\<rparr>)))"
        using dev Inr True dr
        by (cases a) (auto simp: async_device_update_def async_device_health_def c1_def Let_def
            split: sum.splits)
      from upd unfold
      have "c' = k0 \<or> c' = k0\<lparr>sent := sent k0 @ [GetStates]\<rparr>
            \<or> (\<exists>data. update_status loads data (k0\<lparr>sent := sent k0 @ [GetStates]\<rparr>) = (r, c'))"
        by (auto split: sum.splits if_splits)
      then show ?thesis
      proof (elim disjE exE)
        fix data
        assume "update_status loads data (k0\<lparr>sent := sent k0 @ [GetStates]\<rparr>) = (r, c')"
        from update_status_keeps [OF this] k1 show ?thesis
          by (simp add: trace_ok_def)
      qed (use k0 k1 in simp_all)
    qed
  qed
qed

lemma issued_trans:
  "sent c1 = sent c @ xs \<Longrightarrow> sent c2 = sent c1 @ ys \<Longrightarrow> issued c c2 = xs @ ys"
  by (simp add: issued_def)

text \<open>
  Claim C9. Two consecutive calls of \<^verbatim>\<open>async_device_update\<close> whose times lie no more than
  \<open>MIN_TIME_BETWEEN_UPDATES\<close> (10 seconds) apart issue at most one refresh-trigger request
  between them; and a call of the trigger that the gate suppresses returns at once with
  the client, and so the request trace, unchanged.
\<close>

theorem refresh_trigger_rate_limited:
  assumes u1: "async_device_update loads srv1 t1 a1 c = (r1, c1)"
    and u2: "async_device_update loads' srv2 t2 a2 c1 = (r2, c2)"
    and window: "t2 - t1 \<le> MIN_TIME_BETWEEN_UPDATES"
  shows "refresh_count (issued c c2) \<le> 1
         \<and> (\<not> throttle_open t (throttle_last k) \<longrightarrow> device_refresh srv t k = (Inr (), k))"
proof -
  from update_trace [OF u1] obtain xs where xs: "sent c1 = sent c @ xs" "refresh_count xs \<le> 1"
    "refresh_count xs = 1 \<longrightarrow> throttle_last c1 = Some t1"
    by (auto simp: trace_ok_def)
  from update_trace [OF u2] obtain ys where ys: "sent c2 = sent c1 @ ys" "refresh_count ys \<le> 1"
    "refresh_count ys = 1 \<longrightarrow> throttle_open t2 (throttle_last c1)"
    by (auto simp: trace_ok_def)
  have "\<not> (refresh_count xs = 1 \<and> refresh_count ys = 1)"
  proof
    assume both: "refresh_count xs = 1 \<and> refresh_count ys = 1"
    with xs ys have "throttle_open t2 (Some t1)" by simp
    with window show False by (simp add: throttle_open_def)
  qed
  with xs ys have "refresh_count (xs @ ys) \<le> 1" by simp arith
  with issued_trans [OF xs(1) ys(1)] have "refresh_count (issued c c2) \<le> 1" by simp
  moreover have "\<not> throttle_open t (throttle_last k) \<longrightarrow> device_refresh srv t k = (Inr (), k)"
    by (simp add: device_refresh_def)
  ultimately show ?thesis by simp
qed

theorem refresh_trigger_rate_limited_witness:
  "(5 :: rat) - 0 \<le> MIN_TIME_BETWEEN_UPDATES
   \<and> issued tv_on (snd (async_device_update loads0 (server_online (doc_vol (JStr ''42''))) 5 None
        (snd (async_device_update loads0 (server_online (doc_vol (JStr ''42''))) 0 None tv_on))))
      = [GetHealth, PostCommand (command COMMAND_REFRESH []), GetStates, GetHealth, GetStates]
   \<and> \<not> throttle_open 5 (throttle_last (tv_on\<lparr>throttle_last := Some 0\<rparr>))
   \<and> device_refresh (server_online (doc_vol (JStr ''42''))) 5 (tv_on\<lparr>throttle_last := Some 0\<rparr>)
      = (Inr (), tv_on\<lparr>throttle_last := Some 0\<rparr>)"
proof -
  let ?srv = "server_online (doc_vol (JStr ''42''))"
  note r1 = update_doc_vol [OF parse_volume_examples(1)]
  obtain r2 c2 where r2: "async_device_update loads0 ?srv 5 None
      (snd (async_device_update loads0 ?srv 0 None tv_on)) = (r2, c2)"
    by fastforce
  have s2: "sent c2 = [GetHealth, PostCommand (command COMMAND_REFRESH []), GetStates,
                       GetHealth, GetStates]"
    using r2 unfolding r1
    by (auto simp: update_defs send_defs example_defs string_defs)
  have w: "(5 :: rat) - 0 \<le> MIN_TIME_BETWEEN_UPDATES" by (simp add: MIN_TIME_BETWEEN_UPDATES_def)
  have closed: "\<not> throttle_open 5 (throttle_last (tv_on\<lparr>throttle_last := Some 0\<rparr>))"
    by (simp add: throttle_open_def MIN_TIME_BETWEEN_UPDATES_def)
  have r1': "async_device_update loads0 ?srv 0 None tv_on
      = (fst (async_device_update loads0 ?srv 0 None tv_on),
         snd (async_device_update loads0 ?srv 0 None tv_on))"
    by simp
  from refresh_trigger_rate_limited [OF r1' r2 w, of 5 "tv_on\<lparr>throttle_last := Some 0\<rparr>" ?srv]
    closed w s2 r2
  show ?thesis
    by (simp add: issued_def tv_on_def tv0_def init_def)
qed

section \<open>The override hold after selecting a source\<close>

lemma update_fetched_ok:
  assumes upd: "async_device_update loads srv t a c = (Inr (), c')"
    and fetched: "GetStates \<in> set (issued c c')"
  shows "\<exists>data dev k. checked_json (states_response srv) = Inr data
           \<and> dict_get data ''main'' (JObj []) = Inr dev
           \<and> update_source_channel dev k = (Inr (), c')
           \<and> source k = source c \<and> channel k = channel c \<and> channel_name k = channel_name c
           \<and> is_forced_val k = is_forced_val c \<and> forced_count k = forced_count c"
proof -
  from update_cases [OF upd] fetched
  obtain k0 where k0: "same_telemetry c k0"
    and cs: "case checked_json (states_response srv) of
               Inl e \<Rightarrow> Inr () = Inl e \<and> c' = k0
             | Inr data \<Rightarrow> update_status loads data k0 = (Inr (), c')"
    by blast
  from cs obtain data where data: "checked_json (states_response srv) = Inr data"
    and us: "update_status loads data k0 = (Inr (), c')"
    by (cases "checked_json (states_response srv)") auto
  from update_status_ok [OF us] k0 data show ?thesis
    by (auto simp: same_telemetry_def)
qed

lemma reported_via_main:
  "dict_get data ''main'' (JObj []) = Inr dev \<Longrightarrow> reported data name dflt = get_value dev name dflt"
  by (simp add: reported_def)

lemma select_then_two_updates:
  "snd (async_device_update loads0 (server_online doc_news) 30 None
     (snd (async_device_update loads0 (server_online doc_news) 15 None
        (snd (async_select_source (server_online doc_news) 0 ''HDMI1'' tv_no_channel_info)))))
   = tv_no_channel_info\<lparr>state := STATE_ON, prev_state := STATE_ON, volume := 3 / 10,
       source_list := JArr [], source_list_map := JArr [],
       source := JStr ''HDMI2'', channel := JStr '''', channel_name := JStr '''',
       sound_mode_list := JArr [], sound_mode_list_map := JArr [],
       picture_mode_list := JArr [], picture_mode_list_map := JArr [],
       throttle_last := Some 30,
       sent := [PostCommand (command COMMAND_SET_SOURCE [JStr ''HDMI1'']),
                GetHealth, GetStates, GetHealth, GetStates]\<rparr>"
  by (simp add: async_select_source_def set_source_def update_defs send_defs example_defs
      example2_defs string_defs)

text \<open>
  Claim C1, as stated, fails in its last part. On a client that does not use channel
  info, the update after the held one takes the reported source but forces channel and
  channel name to the empty string: the document reports channel "5", the cache has "".
  (Both updates below fetch the document, as the trace shows.)
\<close>

theorem select_source_adopts_counterexample:
  "reported doc_news ''tvChannel'' (JStr '''') = Inr (JStr ''5'')
   \<and> channel (snd (async_device_update loads0 (server_online doc_news) 30 None
       (snd (async_device_update loads0 (server_online doc_news) 15 None
          (snd (async_select_source (server_online doc_news) 0 ''HDMI1'' tv_no_channel_info))))))
      = JStr ''''
   \<and> source (snd (async_device_update loads0 (server_online doc_news) 30 None
       (snd (async_device_update loads0 (server_online doc_news) 15 None
          (snd (async_select_source (server_online doc_news) 0 ''HDMI1'' tv_no_channel_info))))))
      = JStr ''HDMI2''
   \<and> sent (snd (async_device_update loads0 (server_online doc_news) 30 None
       (snd (async_device_update loads0 (server_online doc_news) 15 None
          (snd (async_select_source (server_online doc_news) 0 ''HDMI1'' tv_no_channel_info))))))
      = [PostCommand (command COMMAND_SET_SOURCE [JStr ''HDMI1'']),
         GetHealth, GetStates, GetHealth, GetStates]"
  by (simp add: select_then_two_updates)
     (simp add: reported_def get_value_def example_defs example2_defs)

text \<open>
  Claim C1, amended. For a client whose cached source differs from \<open>s\<close>,
  \<^verbatim>\<open>async_select_source(s)\<close> sets the cached source to \<open>s\<close>, clears channel and channel
  name and arms the hold, whatever becomes of the command POST. The next update that
  fetches a state document and returns normally keeps the three values, whatever the
  document reports. The update after it, if it also fetches a document and returns
  normally, takes the reported source with the digitalTv spelling made canonical, and
  takes the reported channel and channel name when channel info is in use; otherwise it
  forces both to the empty string.
\<close>

theorem select_source_override_hold:
  assumes differs: "source c \<noteq> JStr s"
    and sel: "async_select_source srv1 t1 s c = (r1, c1)"
    and u2: "async_device_update loads srv2 t2 a2 c1 = (Inr (), c2)"
    and f2: "GetStates \<in> set (issued c1 c2)"
    and u3: "async_device_update loads' srv3 t3 a3 c2 = (Inr (), c3)"
    and f3: "GetStates \<in> set (issued c2 c3)"
  shows "source c1 = JStr s \<and> channel c1 = JStr '''' \<and> channel_name c1 = JStr ''''
         \<and> is_forced_val c1 \<and> forced_count c1 = 0
         \<and> source c2 = JStr s \<and> channel c2 = JStr '''' \<and> channel_name c2 = JStr ''''
         \<and> (\<exists>data src. checked_json (states_response srv3) = Inr data
               \<and> reported data ''inputSource'' (JStr '''') = Inr src
               \<and> canonical_source src = Inr (source c3)
               \<and> (if use_channel_info c3
                   then reported data ''tvChannel'' (JStr '''') = Inr (channel c3)
                        \<and> reported data ''tvChannelName'' (JStr '''') = Inr (channel_name c3)
                   else channel c3 = JStr '''' \<and> channel_name c3 = JStr ''''))"
proof -
  from sel have "p_async_send_command srv1 t1 (Some (command COMMAND_SET_SOURCE [JStr s]))
      (set_source s c) = (r1, c1)"
    by (simp add: async_select_source_def)
  from p_async_send_command_telemetry [OF this] differs
  have c1: "source c1 = JStr s" "channel c1 = JStr ''''" "channel_name c1 = JStr ''''"
    "is_forced_val c1" "forced_count c1 = 0"
    by (auto simp: same_telemetry_def set_source_def)
  from update_fetched_ok [OF u2 f2] c1
  obtain dev2 k2 where k2: "update_source_channel dev2 k2 = (Inr (), c2)"
    "source k2 = JStr s" "channel k2 = JStr ''''" "channel_name k2 = JStr ''''"
    "is_forced_val k2" "forced_count k2 = 0"
    by auto
  from update_source_channel_held [of k2 dev2] k2
  have c2_eq: "c2 = k2\<lparr>forced_count := forced_count k2 + 1\<rparr>" by simp
  with k2 have c2: "source c2 = JStr s" "channel c2 = JStr ''''" "channel_name c2 = JStr ''''"
    "is_forced_val c2" "forced_count c2 = 1"
    by simp_all
  from update_fetched_ok [OF u3 f3] c2
  obtain data dev3 k3 where d3: "checked_json (states_response srv3) = Inr data"
    "dict_get data ''main'' (JObj []) = Inr dev3"
    and k3: "update_source_channel dev3 k3 = (Inr (), c3)" "forced_count k3 = 1"
    by auto
  from k3 have nh: "\<not> (is_forced_val k3 \<and> forced_count k3 \<le> 0)" by simp
  from update_source_channel_frame [OF k3(1)]
  have uci: "use_channel_info c3 = use_channel_info k3" by simp
  from update_source_channel_adopts [OF nh k3(1)] uci d3
  have "\<exists>data src. checked_json (states_response srv3) = Inr data
               \<and> reported data ''inputSource'' (JStr '''') = Inr src
               \<and> canonical_source src = Inr (source c3)
               \<and> (if use_channel_info c3
                   then reported data ''tvChannel'' (JStr '''') = Inr (channel c3)
                        \<and> reported data ''tvChannelName'' (JStr '''') = Inr (channel_name c3)
                   else channel c3 = JStr '''' \<and> channel_name c3 = JStr '''')"
    by (auto simp: reported_via_main)
  with c1 c2 show ?thesis by simp
qed

theorem select_source_override_hold_witness:
  "source tv_on \<noteq> JStr ''HDMI1''
   \<and> async_select_source (server_online doc_news) 0 ''HDMI1'' tv_on = (Inr (), tv_selected)
   \<and> async_device_update loads0 (server_online doc_news) 15 None tv_selected = (Inr (), tv_held)
   \<and> GetStates \<in> set (issued tv_selected tv_held)
   \<and> async_device_update loads0 (server_online doc_news) 30 None tv_held = (Inr (), tv_adopted)
   \<and> GetStates \<in> set (issued tv_held tv_adopted)
   \<and> reported doc_news ''inputSource'' (JStr '''') = Inr (JStr ''HDMI2'')
   \<and> source tv_selected = JStr ''HDMI1'' \<and> source tv_held = JStr ''HDMI1''
   \<and> channel tv_held = JStr '''' \<and> channel_name tv_held = JStr ''''
   \<and> source tv_adopted = JStr ''HDMI2''
   \<and> channel tv_adopted = JStr ''5'' \<and> channel_name tv_adopted = JStr ''News''"
proof -
  let ?srv = "server_online doc_news"
  have d: "source tv_on \<noteq> JStr ''HDMI1''" by (simp add: tv_on_def)
  have s1: "async_select_source ?srv 0 ''HDMI1'' tv_on = (Inr (), tv_selected)"
    by (simp add: async_select_source_def set_source_def send_defs example_defs example2_defs)
  have s2: "async_device_update loads0 ?srv 15 None tv_selected = (Inr (), tv_held)"
    by (simp add: update_defs send_defs example_defs example2_defs string_defs)
  have s3: "async_device_update loads0 ?srv 30 None tv_held = (Inr (), tv_adopted)"
    by (simp add: update_defs send_defs example_defs example2_defs string_defs)
  have f2: "GetStates \<in> set (issued tv_selected tv_held)"
    by (simp add: issued_def tv_held_def tv_selected_def)
  have f3: "GetStates \<in> set (issued tv_held tv_adopted)"
    by (simp add: issued_def tv_adopted_def tv_held_def tv_selected_def)
  have rep: "reported doc_news ''inputSource'' (JStr '''') = Inr (JStr ''HDMI2'')"
    by (simp add: reported_def get_value_def doc_news_def state_doc_def)
  from select_source_override_hold [OF d s1 s2 f2 s3 f3] d s1 s2 s3 f2 f3 rep
  show ?thesis
    by (simp add: tv_adopted_def tv_held_def tv_selected_def)
qed

end
